theory Spec2Isabelle
  imports Complex_Main "HOL-Library.Sublist"
begin

section \<open>Text\<close>

text \<open>
  A Python \<^verbatim>\<open>str\<close> is a sequence of Unicode code points, so text is a list of
  natural numbers (the code points), not a list of 8-bit characters: the sanitizer is
  given arbitrary user text. \<open>lit\<close> turns an ASCII literal into such a text.
\<close>

type_synonym str = "nat list"

definition lit :: "string \<Rightarrow> str" where
  "lit cs = map of_char cs"

text \<open>
  \<^verbatim>\<open>str.isspace\<close> of one code point; \<^verbatim>\<open>str.strip()\<close> and the pattern \<^verbatim>\<open>\s\<close> of
  \<^verbatim>\<open>re\<close> (on \<^verbatim>\<open>str\<close> patterns) both use it: U+0009..U+000D, U+001C..U+0020,
  U+0085, U+00A0, U+1680, U+2000..U+200A, U+2028, U+2029, U+202F, U+205F, U+3000.
\<close>

definition isspace :: "nat \<Rightarrow> bool" where
  "isspace c \<longleftrightarrow>
     (9 \<le> c \<and> c \<le> 13) \<or> (28 \<le> c \<and> c \<le> 32) \<or> c = 133 \<or> c = 160 \<or> c = 5760 \<or>
     (8192 \<le> c \<and> c \<le> 8202) \<or> c = 8232 \<or> c = 8233 \<or> c = 8239 \<or> c = 8287 \<or>
     c = 12288"

definition strip :: "str \<Rightarrow> str" where
  "strip s = rev (dropWhile isspace (rev (dropWhile isspace s)))"

text \<open>The character class \<^verbatim>\<open>[A-Za-z0-9 _-]\<close>.\<close>

definition keep :: "nat \<Rightarrow> bool" where
  "keep c \<longleftrightarrow>
     (65 \<le> c \<and> c \<le> 90) \<or> (97 \<le> c \<and> c \<le> 122) \<or> (48 \<le> c \<and> c \<le> 57) \<or>
     c = 32 \<or> c = 95 \<or> c = 45"

text \<open>
  \<^verbatim>\<open>re.sub(P+, r, s)\<close> for a one-character class \<open>P\<close>: every maximal run of characters
  of the class is replaced by the single character \<open>r\<close>.
\<close>

function sub_runs :: "(nat \<Rightarrow> bool) \<Rightarrow> nat \<Rightarrow> str \<Rightarrow> str" where
  "sub_runs P r [] = []"
| "sub_runs P r (c # cs) =
     (if P c then r # sub_runs P r (dropWhile P cs) else c # sub_runs P r cs)"
  by pat_completeness auto
termination
  by (relation "measure (\<lambda>(P, r, s). length s)")
     (auto simp: less_Suc_eq_le length_dropWhile_le)

text \<open>
  \<^verbatim>\<open>re.sub(r"\.pdf$", "", name, flags=re.IGNORECASE)\<close>. The four characters match
  \<^verbatim>\<open>.\<close>, \<^verbatim>\<open>p\<close> or \<^verbatim>\<open>P\<close>, \<^verbatim>\<open>d\<close> or \<^verbatim>\<open>D\<close>, \<^verbatim>\<open>f\<close> or \<^verbatim>\<open>F\<close>; \<^verbatim>\<open>$\<close> matches at the end of the
  text and also just before a line feed that ends the text, which is then kept.
\<close>

definition is_dot_pdf :: "str \<Rightarrow> bool" where
  "is_dot_pdf t \<longleftrightarrow>
     (case t of
        [a, b, c, d] \<Rightarrow>
          a = 46 \<and> (b = 112 \<or> b = 80) \<and> (c = 100 \<or> c = 68) \<and> (d = 102 \<or> d = 70)
      | _ \<Rightarrow> False)"

definition sub_pdf_end :: "str \<Rightarrow> str" where
  "sub_pdf_end name =
     (let n = length name in
      if 4 \<le> n \<and> is_dot_pdf (drop (n - 4) name) then take (n - 4) name
      else if 5 \<le> n \<and> last name = 10 \<and> is_dot_pdf (take 4 (drop (n - 5) name))
        then take (n - 5) name @ [10]
      else name)"

text \<open>The slice \<^verbatim>\<open>name[:k]\<close> for a Python integer \<open>k\<close> (a negative \<open>k\<close> counts from the end).\<close>

definition slice_to :: "str \<Rightarrow> int \<Rightarrow> str" where
  "slice_to s k = (if 0 \<le> k then take (nat k) s else take (length s - nat (- k)) s)"

section \<open>Name sanitizer\<close>

definition sanitize_filename :: "str \<Rightarrow> int \<Rightarrow> str" where
  "sanitize_filename name0 max_len =
     (let name = strip name0 in
      if name = [] then lit ''converted''
      else
        let name = sub_pdf_end name;
            name = sub_runs (\<lambda>c. \<not> keep c) 95 name;
            name = strip (sub_runs isspace 32 name);
            name = (if name = [] then lit ''converted'' else name)
        in slice_to name max_len)"

text \<open>The name after the three substitutions and the second strip, before the fallback.\<close>

definition cleaned :: "str \<Rightarrow> str" where
  "cleaned s =
     strip (sub_runs isspace 32 (sub_runs (\<lambda>c. \<not> keep c) 95 (sub_pdf_end (strip s))))"

section \<open>Paths and the file system\<close>

text \<open>
  A \<^verbatim>\<open>pathlib.Path\<close> is the list of its parts: \<open>[]\<close> is \<^verbatim>\<open>Path("")\<close>, which pathlib
  reads as \<^verbatim>\<open>.\<close>, the current directory; an absolute path starts with the root part,
  \<^verbatim>\<open>/\<close> (or \<^verbatim>\<open>//\<close>, which pathlib keeps when a text starts with exactly two slashes).
  pathlib keeps a part \<^verbatim>\<open>..\<close> as it is; the file system resolves it (see \<open>walk\<close>).
\<close>

type_synonym path = "str list"

definition is_root :: "str \<Rightarrow> bool" where
  "is_root c \<longleftrightarrow> c = lit ''/'' \<or> c = lit ''//''"

definition is_abs :: "path \<Rightarrow> bool" where
  "is_abs p \<longleftrightarrow> p \<noteq> [] \<and> is_root (hd p)"

definition path_name :: "path \<Rightarrow> str" where
  "path_name p = (if p = [] \<or> (length p = 1 \<and> is_root (hd p)) then [] else last p)"

text \<open>
  Parsing a text into parts, as \<^verbatim>\<open>Path(s)\<close> does: the text is split at the slashes,
  empty pieces and \<^verbatim>\<open>.\<close> are dropped, and a text that starts with a slash gives an
  absolute path. \<open>joinpath\<close> is the operator \<^verbatim>\<open>d / s\<close>: an absolute \<open>s\<close> replaces \<open>d\<close>.
\<close>

fun split_slash :: "str \<Rightarrow> str list" where
  "split_slash [] = [[]]"
| "split_slash (c # cs) =
     (if c = 47 then [] # split_slash cs
      else (case split_slash cs of [] \<Rightarrow> [[c]] | x # xs \<Rightarrow> (c # x) # xs))"

definition pieces :: "str \<Rightarrow> str list" where
  "pieces s = filter (\<lambda>x. x \<noteq> [] \<and> x \<noteq> lit ''.'') (split_slash s)"

definition path_root :: "str \<Rightarrow> str list" where
  "path_root s =
     (if take 2 s = lit ''//'' \<and> take 3 s \<noteq> lit ''///'' then [lit ''//'']
      else if take 1 s = lit ''/'' then [lit ''/'']
      else [])"

definition parts_of :: "str \<Rightarrow> path" where
  "parts_of s = path_root s @ pieces s"

definition joinpath :: "path \<Rightarrow> str \<Rightarrow> path" where
  "joinpath d s = (if take 1 s = lit ''/'' then parts_of s else d @ pieces s)"

text \<open>\<^verbatim>\<open>name.rfind(c)\<close>, and \<^verbatim>\<open>suffix\<close> and \<^verbatim>\<open>stem\<close> of pathlib (Python before 3.14).\<close>

definition rfind :: "nat \<Rightarrow> str \<Rightarrow> int" where
  "rfind c s =
     (if c \<in> set s then int (length s) - 1 - int (length (takeWhile (\<lambda>x. x \<noteq> c) (rev s)))
      else - 1)"

definition py_suffix :: "str \<Rightarrow> str" where
  "py_suffix name =
     (let i = rfind 46 name in
      if 0 < i \<and> i < int (length name) - 1 then drop (nat i) name else [])"

definition py_stem :: "str \<Rightarrow> str" where
  "py_stem name =
     (let i = rfind 46 name in
      if 0 < i \<and> i < int (length name) - 1 then take (nat i) name else name)"

text \<open>
  \<^verbatim>\<open>str.lower()\<close> on the ASCII letters. Python also lowers cased letters outside ASCII,
  but no such letter becomes one of the letters of the extensions compared below, so
  the comparisons of \<open>convert_to_pdf\<close> come out the same.
\<close>

definition lower :: "str \<Rightarrow> str" where
  "lower s = map (\<lambda>c. if 65 \<le> c \<and> c \<le> 90 then c + 32 else c) s"

fun join_parts :: "str list \<Rightarrow> str" where
  "join_parts [] = []"
| "join_parts [a] = a"
| "join_parts (a # b # r) = a @ lit ''/'' @ join_parts (b # r)"

text \<open>\<^verbatim>\<open>str(p)\<close> for a path \<open>p\<close>.\<close>

definition str_of_path :: "path \<Rightarrow> str" where
  "str_of_path p =
     (if p = [] then lit ''.''
      else if is_root (hd p) then hd p @ join_parts (tl p)
      else join_parts p)"

type_synonym bytes = "nat list"

text \<open>
  A regular file has its bytes and its modification time \<^verbatim>\<open>st_mtime\<close>, which the code
  only compares. The file table and the directory table hold resolved paths (no
  \<^verbatim>\<open>..\<close>; the root is \<^verbatim>\<open>/\<close>). A write stamps the file with the clock; the clock of a
  file system is coarse, so the next write may fall into the same tick: \<open>ticks\<close> says
  by how much the clock will have advanced after each of the coming writes (0 when
  it stands still, and when the list has run out).
\<close>

record regfile =
  content :: bytes
  mtime :: nat

datatype pstatus = Running | Exited int | Killed

record proc =
  cmd :: "str list"
  status :: pstatus

datatype error =
    TimeoutExpired
  | CalledProcessError int
  | RuntimeError str
  | SameFileError
  | FileNotFoundError
  | IsADirectoryError
  | FileExistsError
  | OtherError str

text \<open>The texts the bot sends, one constructor for each literal of the source.\<close>

datatype reply =
    SendMeAFile
  | Cancelled
  | PleaseSendDocumentOrPhoto
  | BiggerThan20MB
  | FailedToDownload error
  | GotIt str
  | LostFileContext
  | Converting
  | Done
  | ConversionTimedOut
  | LibreOfficeFailed error
  | ConversionFailed error
  | Document str bytes

record world =
  files :: "(path \<times> regfile) list"
  dirs :: "path list"
  clock :: nat
  ticks :: "nat list"
  procs :: "proc list"
  user_data :: "(str \<times> path) list"
  replies :: "reply list"
  downloads :: "str list"
  tmp_calls :: nat

text \<open>
  Resolving a path, as the kernel does on a file system without links: the walk
  starts at the root or at the current directory (\<open>[]\<close>) and takes one part at a time;
  the place where a part is looked up must be a directory, \<^verbatim>\<open>..\<close> goes to the parent
  (the root is its own parent, and so is the current directory, above which the model
  does not look), and the last part need not exist. The result is the resolved path,
  or nothing when the walk fails.
\<close>

definition dir_at :: "path list \<Rightarrow> path \<Rightarrow> bool" where
  "dir_at ds c \<longleftrightarrow> c = [] \<or> c = [lit ''/''] \<or> c \<in> set ds"

definition parent :: "path \<Rightarrow> path" where
  "parent c = (if c = [] \<or> c = [lit ''/''] then c else butlast c)"

fun walk :: "path list \<Rightarrow> path \<Rightarrow> str list \<Rightarrow> path option" where
  "walk ds cur [] = Some cur"
| "walk ds cur (c # cs) =
     (if \<not> dir_at ds cur then None
      else if c = lit ''..'' then walk ds (parent cur) cs
      else walk ds (cur @ [c]) cs)"

definition locate :: "world \<Rightarrow> path \<Rightarrow> path option" where
  "locate w p = (if is_abs p then walk (dirs w) [lit ''/''] (tl p) else walk (dirs w) [] p)"

definition is_file :: "world \<Rightarrow> path \<Rightarrow> bool" where
  "is_file w p \<longleftrightarrow> (case locate w p of None \<Rightarrow> False | Some c \<Rightarrow> map_of (files w) c \<noteq> None)"

definition is_dir :: "world \<Rightarrow> path \<Rightarrow> bool" where
  "is_dir w p \<longleftrightarrow> (case locate w p of None \<Rightarrow> False | Some c \<Rightarrow> dir_at (dirs w) c)"

definition path_exists :: "world \<Rightarrow> path \<Rightarrow> bool" where
  "path_exists w p \<longleftrightarrow> is_dir w p \<or> is_file w p"

definition read_bytes :: "world \<Rightarrow> path \<Rightarrow> bytes option" where
  "read_bytes w p =
     (case locate w p of None \<Rightarrow> None | Some c \<Rightarrow> map_option content (map_of (files w) c))"

definition mtime_of :: "world \<Rightarrow> path \<Rightarrow> nat" where
  "mtime_of w p =
     (case locate w p of
        None \<Rightarrow> 0
      | Some c \<Rightarrow> (case map_of (files w) c of None \<Rightarrow> 0 | Some f \<Rightarrow> mtime f))"

fun put :: "path \<Rightarrow> regfile \<Rightarrow> (path \<times> regfile) list \<Rightarrow> (path \<times> regfile) list" where
  "put p f [] = [(p, f)]"
| "put p f ((q, g) # rest) = (if q = p then (p, f) # rest else (q, g) # put p f rest)"

text \<open>Writing the bytes of the file at a resolved path.\<close>

definition store :: "world \<Rightarrow> path \<Rightarrow> bytes \<Rightarrow> world" where
  "store w c b =
     w\<lparr>files := put c \<lparr>content = b, mtime = clock w\<rparr> (files w),
       clock := clock w + (case ticks w of [] \<Rightarrow> 0 | t # ts \<Rightarrow> t),
       ticks := tl (ticks w)\<rparr>"

text \<open>
  Opening a file for writing, as \<^verbatim>\<open>Path.write_bytes\<close>, \<^verbatim>\<open>Canvas.save\<close>, the download and
  the second half of \<^verbatim>\<open>shutil.copyfile\<close> do: the path must resolve (its directory
  exists) and must not be a directory.
\<close>

definition write_bytes :: "world \<Rightarrow> path \<Rightarrow> bytes \<Rightarrow> error + world" where
  "write_bytes w p b =
     (case locate w p of
        None \<Rightarrow> Inl FileNotFoundError
      | Some c \<Rightarrow> if dir_at (dirs w) c then Inl IsADirectoryError else Inr (store w c b))"

text \<open>
  \<^verbatim>\<open>shutil.copyfile(src, dst)\<close>: it refuses to copy a file onto itself
  (\<^verbatim>\<open>SameFileError\<close>, when \<^verbatim>\<open>os.path.samefile\<close> finds both paths and they are one
  file), then opens the source for reading and the target for writing.
\<close>

definition samefile :: "world \<Rightarrow> path \<Rightarrow> path \<Rightarrow> bool" where
  "samefile w a b \<longleftrightarrow> path_exists w a \<and> path_exists w b \<and> locate w a = locate w b"

definition copyfile :: "world \<Rightarrow> path \<Rightarrow> path \<Rightarrow> error + world" where
  "copyfile w src dst =
     (if samefile w src dst then Inl SameFileError
      else case read_bytes w src of
        None \<Rightarrow> Inl (if is_dir w src then IsADirectoryError else FileNotFoundError)
      | Some b \<Rightarrow> write_bytes w dst b)"

text \<open>
  \<^verbatim>\<open>shutil.rmtree(d, ignore_errors=True)\<close>: everything inside the directory \<open>d\<close> goes,
  and \<open>d\<close> itself; on \<^verbatim>\<open>.\<close> everything with a relative path goes and \<^verbatim>\<open>.\<close> stays. When
  \<open>d\<close> is not a directory the error is ignored and nothing happens.
\<close>

definition inside :: "path \<Rightarrow> path \<Rightarrow> bool" where
  "inside d p \<longleftrightarrow> prefix d p \<and> (is_abs d \<longleftrightarrow> is_abs p)"

definition rmtree :: "world \<Rightarrow> path \<Rightarrow> world" where
  "rmtree w d =
     (case locate w d of
        None \<Rightarrow> w
      | Some c \<Rightarrow>
          if dir_at (dirs w) c
          then w\<lparr>files := filter (\<lambda>(p, f). \<not> inside c p) (files w),
                 dirs := filter (\<lambda>p. \<not> inside c p) (dirs w)\<rparr>
          else w)"

text \<open>
  \<^verbatim>\<open>out_dir.glob("*.pdf")\<close>: the files directly in the directory whose name ends in
  \<^verbatim>\<open>.pdf\<close>, each as \<^verbatim>\<open>out_dir / name\<close>. The order is the one in which the file system
  enumerates the directory, which the program does not decide: the names come sorted
  by a key of the file system, \<open>scan\<close> (names with equal keys in the order of the
  file table). Nothing is listed when \<open>d\<close> is not a directory. (Only regular files are
  listed: the model keeps no modification time for a directory, so a directory named
  \<^verbatim>\<open>*.pdf\<close> is outside it.)
\<close>

definition ends_pdf :: "str \<Rightarrow> bool" where
  "ends_pdf name \<longleftrightarrow> suffix (lit ''.pdf'') name"

definition glob_pdf :: "(str \<Rightarrow> nat) \<Rightarrow> world \<Rightarrow> path \<Rightarrow> path list" where
  "glob_pdf scan w d =
     (case locate w d of
        None \<Rightarrow> []
      | Some c \<Rightarrow>
          if \<not> dir_at (dirs w) c then []
          else
            map (\<lambda>n. d @ [n])
              (sort_key scan
                 (map last (filter (\<lambda>p. p \<noteq> [] \<and> butlast p = c \<and> ends_pdf (last p))
                    (map fst (files w))))))"

text \<open>
  \<^verbatim>\<open>sorted(xs, key=f, reverse=True)\<close>: a stable sort, largest key first, elements with
  equal keys in their original order.
\<close>

definition sorted_reverse :: "('a \<Rightarrow> nat) \<Rightarrow> 'a list \<Rightarrow> 'a list" where
  "sorted_reverse f xs = rev (sort_key f (rev xs))"

section \<open>The environment\<close>

text \<open>
  What the program does not decide is a parameter: the executable search path
  (\<^verbatim>\<open>shutil.which\<close>), the home directory, what a child process does (how long it
  runs, its exit code and the files it has written when it ends or is killed), the
  two PDF libraries, the chat transport, the temporary names drawn by
  \<^verbatim>\<open>tempfile.mkdtemp\<close> and the order in which the file system enumerates a directory.
  A child process writes its files at resolved paths. The PDF libraries are given the
  time of the call, which they may write into the PDF (a creation date).
\<close>

record run =
  duration :: real
  returncode :: int
  writes :: "(path \<times> bytes) list"

record env =
  which :: "str \<Rightarrow> str option"
  home :: path
  spawn :: "str list \<Rightarrow> (path \<times> regfile) list \<Rightarrow> run"
  img2pdf_convert :: "nat \<Rightarrow> bytes \<Rightarrow> error + bytes"
  render_text :: "nat \<Rightarrow> bytes \<Rightarrow> bytes"
  get_file :: "str \<Rightarrow> error + bytes"
  send_document :: "str \<Rightarrow> bytes \<Rightarrow> error option"
  tmpdir :: path
  tmp_names :: "nat \<Rightarrow> str list"
  scan_key :: "str \<Rightarrow> nat"

section \<open>Backend locator\<close>

definition truthy :: "str option \<Rightarrow> bool" where
  "truthy x \<longleftrightarrow> x \<noteq> None \<and> x \<noteq> Some []"

definition mac_candidates :: "env \<Rightarrow> path list" where
  "mac_candidates e =
     [[lit ''/'', lit ''Applications'', lit ''LibreOffice.app'', lit ''Contents'',
       lit ''MacOS'', lit ''soffice''],
      home e @ [lit ''Applications'', lit ''LibreOffice.app'', lit ''Contents'',
       lit ''MacOS'', lit ''soffice'']]"

definition find_soffice :: "env \<Rightarrow> world \<Rightarrow> str option" where
  "find_soffice e w =
     (let p = (if truthy (which e (lit ''soffice'')) then which e (lit ''soffice'')
               else which e (lit ''libreoffice''))
      in if truthy p then p
         else case find (path_exists w) (mac_candidates e) of
                Some c \<Rightarrow> Some (str_of_path c)
              | None \<Rightarrow> None)"

section \<open>Conversion backends\<close>

text \<open>
  \<^verbatim>\<open>subprocess.run(cmd, check=True, ..., timeout=t)\<close>: the child is started; when it
  has not ended after \<open>t\<close> seconds it is killed and waited for and \<^verbatim>\<open>TimeoutExpired\<close>
  is raised; when it ends with a non-zero code \<^verbatim>\<open>CalledProcessError\<close> is raised.
  The process table records every child started and how it ended.
\<close>

definition subprocess_run :: "env \<Rightarrow> world \<Rightarrow> str list \<Rightarrow> int \<Rightarrow> (error + unit) \<times> world" where
  "subprocess_run e w c timeout =
     (let r = spawn e c (files w);
          w1 = fold (\<lambda>(p, b) v. store v p b) (writes r) w
      in if real_of_int timeout < duration r
           then (Inl TimeoutExpired, w1\<lparr>procs := procs w1 @ [\<lparr>cmd = c, status = Killed\<rparr>]\<rparr>)
         else if returncode r \<noteq> 0
           then (Inl (CalledProcessError (returncode r)),
                 w1\<lparr>procs := procs w1 @ [\<lparr>cmd = c, status = Exited (returncode r)\<rparr>]\<rparr>)
         else (Inr (), w1\<lparr>procs := procs w1 @ [\<lparr>cmd = c, status = Exited 0\<rparr>]\<rparr>))"

text \<open>
  The text backend reads the input and saves the canvas; the drawing loop (line
  wrapping and page breaks) is inside \<open>render_text\<close>, the bytes of the saved PDF.
\<close>

definition convert_text_to_pdf :: "env \<Rightarrow> world \<Rightarrow> path \<Rightarrow> path \<Rightarrow> error + world" where
  "convert_text_to_pdf e w input_path pdf_path =
     (case read_bytes w input_path of
        None \<Rightarrow> Inl (if is_dir w input_path then IsADirectoryError else FileNotFoundError)
      | Some text \<Rightarrow> write_bytes w pdf_path (render_text e (clock w) text))"

definition convert_image_to_pdf :: "env \<Rightarrow> world \<Rightarrow> path \<Rightarrow> path \<Rightarrow> error + world" where
  "convert_image_to_pdf e w input_path pdf_path =
     (case read_bytes w input_path of
        None \<Rightarrow> Inl (if is_dir w input_path then IsADirectoryError else FileNotFoundError)
      | Some img_bytes \<Rightarrow>
          (case img2pdf_convert e (clock w) img_bytes of
             Inl err \<Rightarrow> Inl err
           | Inr pdf_bytes \<Rightarrow> write_bytes w pdf_path pdf_bytes))"

definition msg_not_found :: str where
  "msg_not_found =
     lit ''LibreOffice not found. Install LibreOffice, or make sure 'soffice' is available.''"

definition msg_no_pdf :: str where
  "msg_no_pdf = lit ''LibreOffice conversion finished but no PDF was created.''"

definition soffice_cmd :: "str \<Rightarrow> path \<Rightarrow> path \<Rightarrow> str list" where
  "soffice_cmd soffice input_path out_dir =
     [soffice, lit ''--headless'', lit ''--nologo'', lit ''--nofirststartwizard'',
      lit ''--norestore'', lit ''--convert-to'', lit ''pdf'', str_of_path input_path,
      lit ''--outdir'', str_of_path out_dir]"

definition convert_office_to_pdf ::
    "env \<Rightarrow> world \<Rightarrow> path \<Rightarrow> path \<Rightarrow> int \<Rightarrow> (error + path) \<times> world" where
  "convert_office_to_pdf e w input_path out_dir timeout_sec =
     (case find_soffice e w of
        None \<Rightarrow> (Inl (RuntimeError msg_not_found), w)
      | Some soffice \<Rightarrow>
          if soffice = [] then (Inl (RuntimeError msg_not_found), w)
          else
            (case subprocess_run e w (soffice_cmd soffice input_path out_dir) timeout_sec of
               (Inl err, w1) \<Rightarrow> (Inl err, w1)
             | (Inr u, w1) \<Rightarrow>
                 let expected = out_dir @ [py_stem (path_name input_path) @ lit ''.pdf''] in
                 if path_exists w1 expected then (Inr expected, w1)
                 else
                   let pdfs = sorted_reverse (mtime_of w1) (glob_pdf (scan_key e) w1 out_dir) in
                   if pdfs = [] then (Inl (RuntimeError msg_no_pdf), w1)
                   else (Inr (hd pdfs), w1)))"

section \<open>Conversion dispatcher\<close>

definition IMAGE_EXTS :: "str set" where
  "IMAGE_EXTS = {lit ''.png'', lit ''.jpg'', lit ''.jpeg'', lit ''.webp''}"

definition TEXT_EXTS :: "str set" where
  "TEXT_EXTS = {lit ''.txt'', lit ''.md'', lit ''.log'', lit ''.csv''}"

definition OFFICE_EXTS :: "str set" where
  "OFFICE_EXTS =
     {lit ''.doc'', lit ''.docx'', lit ''.ppt'', lit ''.pptx'', lit ''.xls'', lit ''.xlsx'',
      lit ''.odt'', lit ''.ods'', lit ''.odp'', lit ''.rtf''}"

text \<open>
  The last \<^verbatim>\<open>if\<close> of the source is \<^verbatim>\<open>ext in OFFICE_EXTS or True\<close>; the \<^verbatim>\<open>None\<close> the
  function would return after it is the last branch here.
\<close>

definition convert_to_pdf :: "env \<Rightarrow> world \<Rightarrow> path \<Rightarrow> path \<Rightarrow> (error + path) \<times> world" where
  "convert_to_pdf e w input_path work_dir =
     (let ext = lower (py_suffix (path_name input_path));
          pdf_path = work_dir @ [lit ''output.pdf'']
      in if ext = lit ''.pdf'' then
           (case copyfile w input_path pdf_path of
              Inl err \<Rightarrow> (Inl err, w)
            | Inr w1 \<Rightarrow> (Inr pdf_path, w1))
         else if ext \<in> IMAGE_EXTS then
           (case convert_image_to_pdf e w input_path pdf_path of
              Inl err \<Rightarrow> (Inl err, w)
            | Inr w1 \<Rightarrow> (Inr pdf_path, w1))
         else if ext \<in> TEXT_EXTS then
           (case convert_text_to_pdf e w input_path pdf_path of
              Inl err \<Rightarrow> (Inl err, w)
            | Inr w1 \<Rightarrow> (Inr pdf_path, w1))
         else if ext \<in> OFFICE_EXTS \<or> True then
           (case convert_office_to_pdf e w input_path work_dir 90 of
              (Inl err, w1) \<Rightarrow> (Inl err, w1)
            | (Inr out_pdf, w1) \<Rightarrow>
                (case copyfile w1 out_pdf pdf_path of
                   Inl err \<Rightarrow> (Inl err, w1)
                 | Inr w2 \<Rightarrow> (Inr pdf_path, w2)))
         else (Inl (OtherError (lit ''None'')), w))"

text \<open>
  The format classifier is the chain of tests of \<open>convert_to_pdf\<close> read on its own: the
  branch taken for a lower-cased extension.
\<close>

datatype strategy = PassThrough | Image_strategy | Text_strategy | OfficeSuite

definition classify :: "str \<Rightarrow> strategy" where
  "classify ext =
     (if ext = lit ''.pdf'' then PassThrough
      else if ext \<in> IMAGE_EXTS then Image_strategy
      else if ext \<in> TEXT_EXTS then Text_strategy
      else OfficeSuite)"

section \<open>Session state machine\<close>

datatype conv_state = WAIT_FILE | WAIT_NAME | END

text \<open>
  The part of \<^verbatim>\<open>update.message\<close> the handlers read: a document (with an optional file
  name and an optional declared size), the sizes of a photo, and the text.
\<close>

record document =
  doc_file_id :: str
  file_name :: "str option"
  doc_file_size :: "int option"

record photo_size =
  photo_file_id :: str
  photo_file_size :: "int option"

record message =
  msg_document :: "document option"
  msg_photo :: "photo_size list"
  msg_text :: "str option"

definition reply_text :: "world \<Rightarrow> reply \<Rightarrow> world" where
  "reply_text w r = w\<lparr>replies := replies w @ [r]\<rparr>"

definition clear_user_data :: "world \<Rightarrow> world" where
  "clear_user_data w = w\<lparr>user_data := []\<rparr>"

fun set_item :: "str \<Rightarrow> path \<Rightarrow> (str \<times> path) list \<Rightarrow> (str \<times> path) list" where
  "set_item k v [] = [(k, v)]"
| "set_item k v ((k', v') # rest) =
     (if k' = k then (k, v) # rest else (k', v') # set_item k v rest)"

text \<open>
  \<^verbatim>\<open>Path(context.user_data.get(key, ""))\<close>. The handlers store \<^verbatim>\<open>str(path)\<close> and read it
  back through \<^verbatim>\<open>Path\<close>, which gives the path again, so the table holds paths; a
  missing key gives \<^verbatim>\<open>Path("")\<close>, the empty path.
\<close>

definition get_path :: "world \<Rightarrow> str \<Rightarrow> path" where
  "get_path w k = (case map_of (user_data w) k of None \<Rightarrow> [] | Some p \<Rightarrow> p)"

text \<open>
  \<^verbatim>\<open>tempfile.mkdtemp(prefix="tg_pdf_")\<close> makes a directory under the first drawn name
  that does not exist yet; it raises \<^verbatim>\<open>FileExistsError\<close> when every drawn name exists,
  and \<^verbatim>\<open>FileNotFoundError\<close> when the temporary directory itself is missing.
\<close>

definition mkdtemp :: "env \<Rightarrow> world \<Rightarrow> (error + path) \<times> world" where
  "mkdtemp e w =
     (let cands = map (\<lambda>n. tmpdir e @ [lit ''tg_pdf_'' @ n]) (tmp_names e (tmp_calls w));
          w1 = w\<lparr>tmp_calls := Suc (tmp_calls w)\<rparr>
      in case find (\<lambda>d. \<not> path_exists w d) cands of
           None \<Rightarrow> (Inl FileExistsError, w1)
         | Some d \<Rightarrow>
             (case locate w d of
                None \<Rightarrow> (Inl FileNotFoundError, w1)
              | Some c \<Rightarrow> (Inr d, w1\<lparr>dirs := dirs w1 @ [c]\<rparr>)))"

definition start :: "world \<Rightarrow> conv_state \<times> world" where
  "start w = (WAIT_FILE, reply_text w SendMeAFile)"

definition cancel :: "world \<Rightarrow> conv_state \<times> world" where
  "cancel w = (END, reply_text (clear_user_data w) Cancelled)"

text \<open>The file the message carries: its id, its name and its declared size.\<close>

definition choose_file :: "message \<Rightarrow> (str \<times> str \<times> int option) option" where
  "choose_file msg =
     (case msg_document msg of
        Some doc \<Rightarrow>
          Some (doc_file_id doc,
                (if truthy (file_name doc) then the (file_name doc) else lit ''file''),
                doc_file_size doc)
      | None \<Rightarrow>
          if msg_photo msg \<noteq> [] then
            Some (photo_file_id (last (msg_photo msg)), lit ''photo.jpg'',
                  photo_file_size (last (msg_photo msg)))
          else None)"

text \<open>The test \<^verbatim>\<open>file_size and file_size > 20 * 1024 * 1024\<close>.\<close>

definition too_big :: "int option \<Rightarrow> bool" where
  "too_big file_size \<longleftrightarrow>
     (case file_size of None \<Rightarrow> False | Some n \<Rightarrow> n \<noteq> 0 \<and> n > 20 * 1024 * 1024)"

text \<open>
  A plain file name: one part, which \<^verbatim>\<open>work_dir / name\<close> puts inside the working
  directory (no slash, and neither \<^verbatim>\<open>.\<close> nor \<^verbatim>\<open>..\<close>).
\<close>

definition plain_name :: "str \<Rightarrow> bool" where
  "plain_name n \<longleftrightarrow> n \<noteq> [] \<and> 47 \<notin> set n \<and> n \<noteq> lit ''.'' \<and> n \<noteq> lit ''..''"

definition receive_file :: "env \<Rightarrow> world \<Rightarrow> message \<Rightarrow> (error + conv_state) \<times> world" where
  "receive_file e w msg =
     (case choose_file msg of
        None \<Rightarrow> (Inr WAIT_FILE, reply_text w PleaseSendDocumentOrPhoto)
      | Some (file_id, original_name, file_size) \<Rightarrow>
          if too_big file_size then (Inr WAIT_FILE, reply_text w BiggerThan20MB)
          else
            (case mkdtemp e w of
               (Inl err, w1) \<Rightarrow> (Inl err, w1)
             | (Inr work_dir, w1) \<Rightarrow>
                 let input_path = joinpath work_dir original_name;
                     w2 = w1\<lparr>downloads := downloads w1 @ [file_id]\<rparr>
                 in case (case get_file e file_id of
                            Inl err \<Rightarrow> Inl err
                          | Inr data \<Rightarrow> write_bytes w2 input_path data) of
                      Inl err \<Rightarrow>
                        (Inr WAIT_FILE, reply_text (rmtree w2 work_dir) (FailedToDownload err))
                    | Inr w3 \<Rightarrow>
                        let w4 = w3\<lparr>user_data :=
                                   set_item (lit ''input_path'') input_path
                                     (set_item (lit ''work_dir'') work_dir (user_data w3))\<rparr>;
                            suggested = sanitize_filename (py_stem (path_name (parts_of original_name))) 64
                        in (Inr WAIT_NAME, reply_text w4 (GotIt suggested))))"

text \<open>
  Delivery opens the PDF and sends it under the desired name; either can fail, and the
  failure is caught by the last \<^verbatim>\<open>except\<close>.
\<close>

definition deliver :: "env \<Rightarrow> world \<Rightarrow> path \<Rightarrow> str \<Rightarrow> error + world" where
  "deliver e w pdf_path out_name =
     (case read_bytes w pdf_path of
        None \<Rightarrow> Inl (if is_dir w pdf_path then IsADirectoryError else FileNotFoundError)
      | Some data \<Rightarrow>
          (case send_document e out_name data of
             Some err \<Rightarrow> Inl err
           | None \<Rightarrow> Inr (reply_text (reply_text w (Document out_name data)) Done)))"

definition receive_name_and_convert :: "env \<Rightarrow> world \<Rightarrow> message \<Rightarrow> conv_state \<times> world" where
  "receive_name_and_convert e w msg =
     (let desired = sanitize_filename (if truthy (msg_text msg) then the (msg_text msg) else []) 64;
          work_dir = get_path w (lit ''work_dir'');
          input_path = get_path w (lit ''input_path'')
      in if \<not> path_exists w work_dir \<or> \<not> path_exists w input_path
           then (END, clear_user_data (reply_text w LostFileContext))
         else
           let w1 = reply_text w Converting;
               w3 = (case convert_to_pdf e w1 input_path work_dir of
                       (Inr pdf_path, w2) \<Rightarrow>
                         (case deliver e w2 pdf_path (desired @ lit ''.pdf'') of
                            Inr w' \<Rightarrow> w'
                          | Inl TimeoutExpired \<Rightarrow> reply_text w2 ConversionTimedOut
                          | Inl (CalledProcessError c) \<Rightarrow>
                              reply_text w2 (LibreOfficeFailed (CalledProcessError c))
                          | Inl err \<Rightarrow> reply_text w2 (ConversionFailed err))
                     | (Inl TimeoutExpired, w2) \<Rightarrow> reply_text w2 ConversionTimedOut
                     | (Inl (CalledProcessError c), w2) \<Rightarrow>
                         reply_text w2 (LibreOfficeFailed (CalledProcessError c))
                     | (Inl err, w2) \<Rightarrow> reply_text w2 (ConversionFailed err))
           in (END, rmtree (clear_user_data w3) work_dir))"

section \<open>Example environments\<close>

text \<open>
  A host with \<^verbatim>\<open>soffice\<close> on the search path whose engine ends at once with exit code
  0 and writes nothing, and an empty file system with the temporary directory.
\<close>

definition idle_run :: run where
  "idle_run = \<lparr>duration = 2, returncode = 0, writes = []\<rparr>"

definition example_env :: env where
  "example_env =
     \<lparr>which = (\<lambda>n. if n = lit ''soffice'' then Some (lit ''/usr/bin/soffice'') else None),
      home = [lit ''/'', lit ''root''],
      spawn = (\<lambda>c fs. idle_run),
      img2pdf_convert = (\<lambda>t b. Inr (lit ''%PDF'' @ b)),
      render_text = (\<lambda>t b. lit ''%PDF'' @ b),
      get_file = (\<lambda>i. Inr (lit ''hello'')),
      send_document = (\<lambda>n b. None),
      tmpdir = [lit ''/'', lit ''tmp''],
      tmp_names = (\<lambda>n. [lit ''a1'']),
      scan_key = (\<lambda>n. 0)\<rparr>"

definition example_world :: world where
  "example_world =
     \<lparr>files = [], dirs = [[lit ''/''], [lit ''/'', lit ''tmp'']], clock = 1, ticks = [1, 1, 1, 1],
      procs = [],
      user_data = [], replies = [], downloads = [], tmp_calls = 0\<rparr>"

definition job_dir :: path where
  "job_dir = [lit ''/'', lit ''tmp'', lit ''tg_pdf_a1'']"

definition text_message :: "str \<Rightarrow> message" where
  "text_message t = \<lparr>msg_document = None, msg_photo = [], msg_text = Some t\<rparr>"

definition document_message :: "str \<Rightarrow> int option \<Rightarrow> message" where
  "document_message name sz =
     \<lparr>msg_document = Some \<lparr>doc_file_id = lit ''id1'', file_name = Some name, doc_file_size = sz\<rparr>,
      msg_photo = [], msg_text = None\<rparr>"

text \<open>
  An engine that runs for two minutes, a host without any engine, and a job whose
  working directory holds an uploaded \<^verbatim>\<open>report.docx\<close>.
\<close>

definition slow_env :: env where
  "slow_env = example_env\<lparr>spawn := (\<lambda>c fs. \<lparr>duration = 120, returncode = 0, writes = []\<rparr>)\<rparr>"

definition no_engine_env :: env where
  "no_engine_env = example_env\<lparr>which := (\<lambda>n. None)\<rparr>"

definition docx_path :: path where
  "docx_path = job_dir @ [lit ''report.docx'']"

definition office_world :: world where
  "office_world =
     \<lparr>files = [(docx_path, \<lparr>content = lit ''doc'', mtime = 1\<rparr>)],
      dirs = [[lit ''/''], [lit ''/'', lit ''tmp''], job_dir], clock = 2, ticks = [1, 1, 1, 1],
      procs = [],
      user_data = [(lit ''work_dir'', job_dir), (lit ''input_path'', docx_path)],
      replies = [], downloads = [lit ''id1''], tmp_calls = 1\<rparr>"

text \<open>
  An engine that writes one PDF under a given name, and the job's directory with a
  PDF left from earlier.
\<close>

definition naming_env :: "str \<Rightarrow> env" where
  "naming_env nm =
     example_env\<lparr>spawn := (\<lambda>c fs. \<lparr>duration = 2, returncode = 0,
                                    writes = [(job_dir @ [nm], lit ''%PDF-1'')]\<rparr>)\<rparr>"

definition stale_world :: world where
  "stale_world =
     office_world\<lparr>files := (job_dir @ [lit ''old.pdf''], \<lparr>content = lit ''%PDF-0'', mtime = 0\<rparr>)
                              # files office_world\<rparr>"

text \<open>A job whose upload is a PDF \<^verbatim>\<open>scan.pdf\<close> with the given bytes.\<close>

definition pdf_world :: "bytes \<Rightarrow> world" where
  "pdf_world data =
     \<lparr>files = [(job_dir @ [lit ''scan.pdf''], \<lparr>content = data, mtime = 1\<rparr>)],
      dirs = [[lit ''/''], [lit ''/'', lit ''tmp''], job_dir], clock = 2, ticks = [1, 1, 1, 1],
      procs = [],
      user_data = [(lit ''work_dir'', job_dir), (lit ''input_path'', job_dir @ [lit ''scan.pdf''])],
      replies = [], downloads = [lit ''id1''], tmp_calls = 1\<rparr>"

text \<open>
  The bot's own directory with one file in it and no stored job, and the world after
  a document \<^verbatim>\<open>a.txt\<close> has been received.
\<close>

definition cwd_world :: world where
  "cwd_world = example_world\<lparr>files := [([lit ''bot.py''], \<lparr>content = lit ''code'', mtime = 0\<rparr>)]\<rparr>"

definition uploaded_world :: world where
  "uploaded_world = snd (receive_file example_env example_world (document_message (lit ''a.txt'') None))"

section \<open>Running the dispatcher twice\<close>

text \<open>
  Lines 136 to 145 of \<open>convert_office_to_pdf\<close> on their own: the PDF selected in a world
  in which the engine has ended.
\<close>

definition discover :: "env \<Rightarrow> world \<Rightarrow> path \<Rightarrow> path \<Rightarrow> error + path" where
  "discover e v input_path out_dir =
     (let expected = out_dir @ [py_stem (path_name input_path) @ lit ''.pdf''] in
      if path_exists v expected then Inr expected
      else
        let pdfs = sorted_reverse (mtime_of v) (glob_pdf (scan_key e) v out_dir) in
        if pdfs = [] then Inl (RuntimeError msg_no_pdf) else Inr (hd pdfs))"

text \<open>The bytes stored at a resolved path, if a file is there.\<close>

definition bytes_at :: "world \<Rightarrow> path \<Rightarrow> bytes option" where
  "bytes_at v c = map_option content (map_of (files v) c)"

text \<open>The writes of a child process, as \<open>subprocess_run\<close> applies them.\<close>

abbreviation apply_writes :: "(path \<times> bytes) list \<Rightarrow> world \<Rightarrow> world" where
  "apply_writes \<equiv> fold (\<lambda>(p, b) v. store v p b)"

text \<open>
  The job's directory after a first conversion of \<^verbatim>\<open>report.docx\<close>: with the engine that
  writes nothing, and with the engine that writes \<^verbatim>\<open>Bericht.pdf\<close>.
\<close>

definition after_idle :: world where
  "after_idle =
     \<lparr>files = [(job_dir @ [lit ''old.pdf''], \<lparr>content = lit ''%PDF-0'', mtime = 0\<rparr>),
               (docx_path, \<lparr>content = lit ''doc'', mtime = 1\<rparr>),
               (job_dir @ [lit ''output.pdf''], \<lparr>content = lit ''%PDF-0'', mtime = 2\<rparr>)],
      dirs = [[lit ''/''], [lit ''/'', lit ''tmp''], job_dir], clock = 3, ticks = [1, 1, 1],
      procs = [\<lparr>cmd = soffice_cmd (lit ''/usr/bin/soffice'') docx_path job_dir, status = Exited 0\<rparr>],
      user_data = [(lit ''work_dir'', job_dir), (lit ''input_path'', docx_path)],
      replies = [], downloads = [lit ''id1''], tmp_calls = 1\<rparr>"

definition after_bericht :: world where
  "after_bericht =
     \<lparr>files = [(job_dir @ [lit ''old.pdf''], \<lparr>content = lit ''%PDF-0'', mtime = 0\<rparr>),
               (docx_path, \<lparr>content = lit ''doc'', mtime = 1\<rparr>),
               (job_dir @ [lit ''Bericht.pdf''], \<lparr>content = lit ''%PDF-1'', mtime = 2\<rparr>),
               (job_dir @ [lit ''output.pdf''], \<lparr>content = lit ''%PDF-1'', mtime = 3\<rparr>)],
      dirs = [[lit ''/''], [lit ''/'', lit ''tmp''], job_dir], clock = 4, ticks = [1, 1],
      procs = [\<lparr>cmd = soffice_cmd (lit ''/usr/bin/soffice'') docx_path job_dir, status = Exited 0\<rparr>],
      user_data = [(lit ''work_dir'', job_dir), (lit ''input_path'', docx_path)],
      replies = [], downloads = [lit ''id1''], tmp_calls = 1\<rparr>"

text \<open>
  A fresh job directory on a file system whose clock stands still for all the writes
  to come and which enumerates \<^verbatim>\<open>output.pdf\<close> before the other names, and the directory
  after a first conversion there with the engine that writes \<^verbatim>\<open>Bericht.pdf\<close>.
\<close>

definition same_tick_world :: world where
  "same_tick_world = office_world\<lparr>ticks := []\<rparr>"

definition output_first_env :: env where
  "output_first_env =
     (naming_env (lit ''Bericht.pdf''))
       \<lparr>scan_key := (\<lambda>n. if n = lit ''output.pdf'' then 0 else 1)\<rparr>"

definition after_same_tick :: world where
  "after_same_tick =
     \<lparr>files = [(docx_path, \<lparr>content = lit ''doc'', mtime = 1\<rparr>),
               (job_dir @ [lit ''Bericht.pdf''], \<lparr>content = lit ''%PDF-1'', mtime = 2\<rparr>),
               (job_dir @ [lit ''output.pdf''], \<lparr>content = lit ''%PDF-1'', mtime = 2\<rparr>)],
      dirs = [[lit ''/''], [lit ''/'', lit ''tmp''], job_dir], clock = 2, ticks = [],
      procs = [\<lparr>cmd = soffice_cmd (lit ''/usr/bin/soffice'') docx_path job_dir, status = Exited 0\<rparr>],
      user_data = [(lit ''work_dir'', job_dir), (lit ''input_path'', docx_path)],
      replies = [], downloads = [lit ''id1''], tmp_calls = 1\<rparr>"

section \<open>Properties of the name sanitizer\<close>

lemma set_sub_runs: "set (sub_runs P r s) \<subseteq> insert r {c \<in> set s. \<not> P c}"
proof (induction P r s rule: sub_runs.induct)
  case (1 P r)
  then show ?case by simp
next
  case (2 P r c cs)
  show ?case
  proof (cases "P c")
    case True
    have "set (dropWhile P cs) \<subseteq> set cs" by (auto dest: set_dropWhileD)
    with True 2(1) show ?thesis by auto
  next
    case False
    with 2(2) show ?thesis by auto
  qed
qed

lemma set_strip: "set (strip s) \<subseteq> set s"
  unfolding strip_def by (auto dest!: set_dropWhileD)

lemma set_slice_to: "set (slice_to s k) \<subseteq> set s"
  unfolding slice_to_def by (auto dest: in_set_takeD)

lemma keep_converted: "c \<in> set (lit ''converted'') \<Longrightarrow> keep c"
  by (auto simp: lit_def keep_def)

lemma keep_cleaned:
  assumes "c \<in> set (cleaned s)"
  shows "keep c"
proof -
  from assms
  have "c \<in> set (sub_runs isspace 32 (sub_runs (\<lambda>c. \<not> keep c) 95 (sub_pdf_end (strip s))))"
    unfolding cleaned_def using set_strip by blast
  then have "c = 32 \<or> c \<in> set (sub_runs (\<lambda>c. \<not> keep c) 95 (sub_pdf_end (strip s)))"
    using set_sub_runs [of isspace 32] by blast
  then have "c = 32 \<or> c = 95 \<or> keep c"
    using set_sub_runs [of "\<lambda>c. \<not> keep c" 95] by blast
  then show "keep c" by (auto simp: keep_def)
qed

lemma sanitize_filename_eq:
  "sanitize_filename s k =
     (if strip s = [] then lit ''converted''
      else slice_to (if cleaned s = [] then lit ''converted'' else cleaned s) k)"
  by (simp add: sanitize_filename_def cleaned_def Let_def)

lemma length_converted: "length (lit ''converted'') = 9"
  by (simp add: lit_def)

lemma sanitize_general:
  assumes "9 \<le> k"
  shows "sanitize_filename s k \<noteq> []"
    and "int (length (sanitize_filename s k)) \<le> k"
    and "\<forall>c \<in> set (sanitize_filename s k). keep c"
    and "strip s = [] \<or> cleaned s = [] \<Longrightarrow> sanitize_filename s k = lit ''converted''"
proof -
  have conv: "slice_to (lit ''converted'') k = lit ''converted''"
    using assms by (simp add: slice_to_def length_converted)
  show "sanitize_filename s k \<noteq> []"
    using assms by (auto simp: sanitize_filename_eq slice_to_def lit_def)
  show "int (length (sanitize_filename s k)) \<le> k"
    using assms by (auto simp: sanitize_filename_eq slice_to_def length_converted)
  show "\<forall>c \<in> set (sanitize_filename s k). keep c"
    using set_slice_to keep_cleaned keep_converted
    by (auto simp: sanitize_filename_eq split: if_splits) blast+
  show "strip s = [] \<or> cleaned s = [] \<Longrightarrow> sanitize_filename s k = lit ''converted''"
    using conv by (auto simp: sanitize_filename_eq)
qed

text \<open>
  Claim C6. For every text \<open>s\<close> (a list of arbitrary code points), \<open>sanitize_filename\<close>
  with the default bound 64 returns a text that is not empty, has at most 64
  characters and holds only characters of \<^verbatim>\<open>[A-Za-z0-9 _-]\<close>; when \<open>s\<close> is empty or
  blank, or nothing is left of it after the cleaning steps, the result is the literal
  \<^verbatim>\<open>converted\<close>. The same holds for every bound \<open>max_len\<close> of at least 9, the length of
  the fallback. The function is total: it is defined by terminating recursion.
\<close>

theorem sanitize_filename_safe:
  "sanitize_filename s 64 \<noteq> [] \<and>
   length (sanitize_filename s 64) \<le> 64 \<and>
   (\<forall>c \<in> set (sanitize_filename s 64). keep c) \<and>
   (strip s = [] \<or> cleaned s = [] \<longrightarrow> sanitize_filename s 64 = lit ''converted'') \<and>
   (\<forall>max_len. 9 \<le> max_len \<longrightarrow>
      sanitize_filename s max_len \<noteq> [] \<and>
      int (length (sanitize_filename s max_len)) \<le> max_len \<and>
      (\<forall>c \<in> set (sanitize_filename s max_len). keep c) \<and>
      (strip s = [] \<or> cleaned s = [] \<longrightarrow> sanitize_filename s max_len = lit ''converted''))"
proof -
  have g: "\<forall>max_len. 9 \<le> max_len \<longrightarrow>
      sanitize_filename s max_len \<noteq> [] \<and>
      int (length (sanitize_filename s max_len)) \<le> max_len \<and>
      (\<forall>c \<in> set (sanitize_filename s max_len). keep c) \<and>
      (strip s = [] \<or> cleaned s = [] \<longrightarrow> sanitize_filename s max_len = lit ''converted'')"
    using sanitize_general [of _ s] by blast
  have "(9::int) \<le> 64" by simp
  with g have d: "sanitize_filename s 64 \<noteq> [] \<and>
      int (length (sanitize_filename s 64)) \<le> 64 \<and>
      (\<forall>c \<in> set (sanitize_filename s 64). keep c) \<and>
      (strip s = [] \<or> cleaned s = [] \<longrightarrow> sanitize_filename s 64 = lit ''converted'')"
    by blast
  then have "length (sanitize_filename s 64) \<le> 64" by linarith
  with d g show ?thesis by blast
qed

theorem sanitize_filename_safe_witness:
  "strip (lit ''   '') = [] \<and>
   sanitize_filename (lit ''   '') 64 = lit ''converted'' \<and>
   (9::int) \<le> 10 \<and>
   sanitize_filename (lit ''../etc/quarterly report 2024.PDF'') 10 \<noteq> [] \<and>
   int (length (sanitize_filename (lit ''../etc/quarterly report 2024.PDF'') 10)) \<le> 10"
proof -
  have h: "strip (lit ''   '') = []"
    by (simp add: strip_def lit_def isspace_def)
  have k: "(9::int) \<le> 10" by simp
  from sanitize_filename_safe [of "lit ''   ''"] h
  have a: "sanitize_filename (lit ''   '') 64 = lit ''converted''" by blast
  from sanitize_filename_safe [of "lit ''../etc/quarterly report 2024.PDF''"] k
  have b: "sanitize_filename (lit ''../etc/quarterly report 2024.PDF'') 10 \<noteq> [] \<and>
      int (length (sanitize_filename (lit ''../etc/quarterly report 2024.PDF'') 10)) \<le> 10"
    by blast
  from h a k b show ?thesis by blast
qed

section \<open>Properties of the format classifier\<close>

lemma convert_to_pdf_classify:
  "convert_to_pdf e w input_path work_dir =
     (case classify (lower (py_suffix (path_name input_path))) of
        PassThrough \<Rightarrow>
          (case copyfile w input_path (work_dir @ [lit ''output.pdf'']) of
             Inl err \<Rightarrow> (Inl err, w)
           | Inr w1 \<Rightarrow> (Inr (work_dir @ [lit ''output.pdf'']), w1))
      | Image_strategy \<Rightarrow>
          (case convert_image_to_pdf e w input_path (work_dir @ [lit ''output.pdf'']) of
             Inl err \<Rightarrow> (Inl err, w)
           | Inr w1 \<Rightarrow> (Inr (work_dir @ [lit ''output.pdf'']), w1))
      | Text_strategy \<Rightarrow>
          (case convert_text_to_pdf e w input_path (work_dir @ [lit ''output.pdf'']) of
             Inl err \<Rightarrow> (Inl err, w)
           | Inr w1 \<Rightarrow> (Inr (work_dir @ [lit ''output.pdf'']), w1))
      | OfficeSuite \<Rightarrow>
          (case convert_office_to_pdf e w input_path work_dir 90 of
             (Inl err, w1) \<Rightarrow> (Inl err, w1)
           | (Inr out_pdf, w1) \<Rightarrow>
               (case copyfile w1 out_pdf (work_dir @ [lit ''output.pdf'']) of
                  Inl err \<Rightarrow> (Inl err, w1)
                | Inr w2 \<Rightarrow> (Inr (work_dir @ [lit ''output.pdf'']), w2))))"
  by (simp add: convert_to_pdf_def classify_def Let_def)

text \<open>
  Claim C9. The dispatcher routes by the classifier: for every input,
  \<open>convert_to_pdf\<close> does what the strategy of the lower-cased extension of the input's
  name prescribes (the pass-through copy, the image backend, the text backend, or the
  office backend followed by the copy to \<^verbatim>\<open>output.pdf\<close>). The classifier sends the
  extension \<^verbatim>\<open>.pdf\<close> to \<open>PassThrough\<close>, every extension of the image set (\<^verbatim>\<open>.png\<close> is
  one) to the image strategy, every extension of the text set (\<^verbatim>\<open>.txt\<close> is one) to the
  text strategy, and every other extension to \<open>OfficeSuite\<close>, among them \<^verbatim>\<open>.docx\<close> and
  the unknown \<^verbatim>\<open>.xyz\<close>.
\<close>

theorem classify_table:
  "convert_to_pdf e w input_path work_dir =
     (case classify (lower (py_suffix (path_name input_path))) of
        PassThrough \<Rightarrow>
          (case copyfile w input_path (work_dir @ [lit ''output.pdf'']) of
             Inl err \<Rightarrow> (Inl err, w)
           | Inr w1 \<Rightarrow> (Inr (work_dir @ [lit ''output.pdf'']), w1))
      | Image_strategy \<Rightarrow>
          (case convert_image_to_pdf e w input_path (work_dir @ [lit ''output.pdf'']) of
             Inl err \<Rightarrow> (Inl err, w)
           | Inr w1 \<Rightarrow> (Inr (work_dir @ [lit ''output.pdf'']), w1))
      | Text_strategy \<Rightarrow>
          (case convert_text_to_pdf e w input_path (work_dir @ [lit ''output.pdf'']) of
             Inl err \<Rightarrow> (Inl err, w)
           | Inr w1 \<Rightarrow> (Inr (work_dir @ [lit ''output.pdf'']), w1))
      | OfficeSuite \<Rightarrow>
          (case convert_office_to_pdf e w input_path work_dir 90 of
             (Inl err, w1) \<Rightarrow> (Inl err, w1)
           | (Inr out_pdf, w1) \<Rightarrow>
               (case copyfile w1 out_pdf (work_dir @ [lit ''output.pdf'']) of
                  Inl err \<Rightarrow> (Inl err, w1)
                | Inr w2 \<Rightarrow> (Inr (work_dir @ [lit ''output.pdf'']), w2)))) \<and>
   classify (lit ''.pdf'') = PassThrough \<and>
   (\<forall>ext \<in> IMAGE_EXTS. classify ext = Image_strategy) \<and> lit ''.png'' \<in> IMAGE_EXTS \<and>
   (\<forall>ext \<in> TEXT_EXTS. classify ext = Text_strategy) \<and> lit ''.txt'' \<in> TEXT_EXTS \<and>
   (\<forall>ext. ext \<noteq> lit ''.pdf'' \<and> ext \<notin> IMAGE_EXTS \<and> ext \<notin> TEXT_EXTS \<longrightarrow>
      classify ext = OfficeSuite) \<and>
   classify (lit ''.docx'') = OfficeSuite \<and> classify (lit ''.xyz'') = OfficeSuite"
proof -
  have t: "classify (lit ''.pdf'') = PassThrough \<and>
     (\<forall>ext \<in> IMAGE_EXTS. classify ext = Image_strategy) \<and> lit ''.png'' \<in> IMAGE_EXTS \<and>
     (\<forall>ext \<in> TEXT_EXTS. classify ext = Text_strategy) \<and> lit ''.txt'' \<in> TEXT_EXTS \<and>
     (\<forall>ext. ext \<noteq> lit ''.pdf'' \<and> ext \<notin> IMAGE_EXTS \<and> ext \<notin> TEXT_EXTS \<longrightarrow>
        classify ext = OfficeSuite) \<and>
     classify (lit ''.docx'') = OfficeSuite \<and> classify (lit ''.xyz'') = OfficeSuite"
    by (simp add: classify_def IMAGE_EXTS_def TEXT_EXTS_def lit_def)
  from convert_to_pdf_classify [of e w input_path work_dir] t show ?thesis by (rule conjI)
qed

theorem classify_table_witness:
  "lit ''.jpeg'' \<in> IMAGE_EXTS \<and> classify (lit ''.jpeg'') = Image_strategy \<and>
   lit ''.md'' \<in> TEXT_EXTS \<and> classify (lit ''.md'') = Text_strategy \<and>
   lit ''.zip'' \<noteq> lit ''.pdf'' \<and> lit ''.zip'' \<notin> IMAGE_EXTS \<and> lit ''.zip'' \<notin> TEXT_EXTS \<and>
   classify (lit ''.zip'') = OfficeSuite \<and>
   lower (py_suffix (path_name docx_path)) = lit ''.docx'' \<and>
   convert_to_pdf no_engine_env office_world docx_path job_dir =
     (Inl (RuntimeError msg_not_found), office_world)"
proof -
  have a: "lit ''.jpeg'' \<in> IMAGE_EXTS" by (simp add: IMAGE_EXTS_def)
  have b: "lit ''.md'' \<in> TEXT_EXTS" by (simp add: TEXT_EXTS_def)
  have c: "lit ''.zip'' \<noteq> lit ''.pdf'' \<and> lit ''.zip'' \<notin> IMAGE_EXTS \<and> lit ''.zip'' \<notin> TEXT_EXTS"
    by (simp add: IMAGE_EXTS_def TEXT_EXTS_def lit_def)
  have x: "lower (py_suffix (path_name docx_path)) = lit ''.docx''"
    by (simp add: docx_path_def job_dir_def path_name_def is_root_def py_suffix_def rfind_def
          lower_def lit_def)
  have o: "convert_office_to_pdf no_engine_env office_world docx_path job_dir 90 =
      (Inl (RuntimeError msg_not_found), office_world)"
    by (simp add: convert_office_to_pdf_def find_soffice_def no_engine_env_def example_env_def
          truthy_def mac_candidates_def path_exists_def is_dir_def is_file_def locate_def
          is_abs_def is_root_def dir_at_def office_world_def docx_path_def job_dir_def lit_def)
  note t = classify_table [of no_engine_env office_world docx_path job_dir]
  from t have d: "classify (lit ''.docx'') = OfficeSuite" by blast
  from t have "convert_to_pdf no_engine_env office_world docx_path job_dir =
      (case classify (lit ''.docx'') of
        PassThrough \<Rightarrow>
          (case copyfile office_world docx_path (job_dir @ [lit ''output.pdf'']) of
             Inl err \<Rightarrow> (Inl err, office_world)
           | Inr w1 \<Rightarrow> (Inr (job_dir @ [lit ''output.pdf'']), w1))
      | Image_strategy \<Rightarrow>
          (case convert_image_to_pdf no_engine_env office_world docx_path (job_dir @ [lit ''output.pdf'']) of
             Inl err \<Rightarrow> (Inl err, office_world)
           | Inr w1 \<Rightarrow> (Inr (job_dir @ [lit ''output.pdf'']), w1))
      | Text_strategy \<Rightarrow>
          (case convert_text_to_pdf no_engine_env office_world docx_path (job_dir @ [lit ''output.pdf'']) of
             Inl err \<Rightarrow> (Inl err, office_world)
           | Inr w1 \<Rightarrow> (Inr (job_dir @ [lit ''output.pdf'']), w1))
      | OfficeSuite \<Rightarrow>
          (case convert_office_to_pdf no_engine_env office_world docx_path job_dir 90 of
             (Inl err, w1) \<Rightarrow> (Inl err, w1)
           | (Inr out_pdf, w1) \<Rightarrow>
               (case copyfile w1 out_pdf (job_dir @ [lit ''output.pdf'']) of
                  Inl err \<Rightarrow> (Inl err, w1)
                | Inr w2 \<Rightarrow> (Inr (job_dir @ [lit ''output.pdf'']), w2))))"
    unfolding x by blast
  then have r: "convert_to_pdf no_engine_env office_world docx_path job_dir =
      (Inl (RuntimeError msg_not_found), office_world)"
    unfolding d o by simp
  from t a b c x r show ?thesis by blast
qed

section \<open>Properties of path resolution\<close>

lemma walk_append:
  "walk ds cur (xs @ ys) = (case walk ds cur xs of None \<Rightarrow> None | Some c \<Rightarrow> walk ds c ys)"
  by (induction xs arbitrary: cur) auto

lemma walk_mono:
  assumes "set ds \<subseteq> set ds'" and "walk ds cur p = Some c"
  shows "walk ds' cur p = Some c"
  using assms(2)
proof (induction p arbitrary: cur)
  case Nil
  then show ?case by simp
next
  case (Cons a p)
  from Cons.prems have d: "dir_at ds cur" by (auto split: if_splits)
  with assms(1) have d': "dir_at ds' cur" by (auto simp: dir_at_def)
  from Cons.prems d Cons.IH d' show ?case by (auto split: if_splits)
qed

lemma locate_Nil [simp]: "locate w [] = Some []"
  by (simp add: locate_def is_abs_def)

lemma locate_snoc:
  assumes "d = [] \<longrightarrow> \<not> is_root n"
  shows "locate w (d @ [n]) =
     (case locate w d of None \<Rightarrow> None | Some c \<Rightarrow> walk (dirs w) c [n])"
proof (cases "d = []")
  case True
  with assms show ?thesis by (simp add: locate_def is_abs_def)
next
  case False
  then have "is_abs (d @ [n]) = is_abs d" and "tl (d @ [n]) = tl d @ [n]"
    by (simp_all add: is_abs_def)
  then show ?thesis by (simp add: locate_def walk_append)
qed


lemma locate_cong: "dirs v = dirs w \<Longrightarrow> locate v p = locate w p"
  by (simp add: locate_def)

lemma split_slash_plain: "47 \<notin> set n \<Longrightarrow> split_slash n = [n]"
  by (induction n) auto

lemma joinpath_plain:
  assumes "plain_name n"
  shows "joinpath d n = d @ [n]"
proof -
  from assms have "47 \<notin> set n" and "n \<noteq> []" and "n \<noteq> lit ''.''"
    by (simp_all add: plain_name_def)
  moreover from this have "take 1 n \<noteq> lit ''/''" by (cases n) (auto simp: lit_def)
  ultimately show ?thesis by (simp add: joinpath_def pieces_def split_slash_plain)
qed


section \<open>Properties of the file step\<close>

lemma replies_rmtree [simp]: "replies (rmtree w d) = replies w"
  by (simp add: rmtree_def split: option.splits)

lemma downloads_rmtree [simp]: "downloads (rmtree w d) = downloads w"
  by (simp add: rmtree_def split: option.splits)

lemma replies_reply_text [simp]: "replies (reply_text w r) = replies w @ [r]"
  by (simp add: reply_text_def)

lemma downloads_reply_text [simp]: "downloads (reply_text w r) = downloads w"
  by (simp add: reply_text_def)

lemma write_bytes_fields:
  "write_bytes w p c = Inr w' \<Longrightarrow>
     replies w' = replies w \<and> downloads w' = downloads w \<and> procs w' = procs w \<and>
     user_data w' = user_data w \<and> dirs w' = dirs w"
  by (auto simp: write_bytes_def store_def split: if_splits option.splits)



lemma map_of_put: "map_of (put p f fs) q = (if q = p then Some f else map_of fs q)"
  by (induction fs) auto








lemmas fs_defs = path_exists_def is_dir_def is_file_def locate_def is_abs_def is_root_def
  dir_at_def parent_def

lemma mk_ex:
  "mkdtemp example_env example_world =
     (Inr job_dir, example_world\<lparr>tmp_calls := 1, dirs := dirs example_world @ [job_dir]\<rparr>)"
  by (simp add: mkdtemp_def example_env_def example_world_def job_dir_def fs_defs lit_def)


text \<open>
  Names that are not plain. A name with a directory in front cannot be written in the
  fresh working directory, and \<^verbatim>\<open>..\<close> names a directory: the download fails, the
  working directory is removed and the step stays in \<open>WAIT_FILE\<close>. An absolute name
  replaces the working directory, so the upload lands outside it.
\<close>

lemmas receive_defs = receive_file_def choose_file_def document_message_def truthy_def too_big_def
  mkdtemp_def example_env_def example_world_def job_dir_def fs_defs joinpath_def parts_of_def
  pieces_def path_root_def write_bytes_def read_bytes_def store_def rmtree_def inside_def
  reply_text_def lit_def Let_def

lemma receive_file_nested_name:
  "fst (receive_file example_env example_world (document_message (lit ''sub/a.txt'') None)) =
     Inr WAIT_FILE"
  "replies (snd (receive_file example_env example_world
                  (document_message (lit ''sub/a.txt'') None))) =
     [FailedToDownload FileNotFoundError]"
  "\<not> path_exists (snd (receive_file example_env example_world
                        (document_message (lit ''sub/a.txt'') None))) job_dir"
  by (simp_all add: receive_defs)

lemma receive_file_dotdot_name:
  "fst (receive_file example_env example_world (document_message (lit ''..'') None)) =
     Inr WAIT_FILE"
  "replies (snd (receive_file example_env example_world (document_message (lit ''..'') None))) =
     [FailedToDownload IsADirectoryError]"
  by (simp_all add: receive_defs)

lemma receive_file_absolute_name:
  "fst (receive_file example_env example_world (document_message (lit ''/tmp/x'') None)) =
     Inr WAIT_NAME"
  "read_bytes (snd (receive_file example_env example_world
                     (document_message (lit ''/tmp/x'') None)))
     [lit ''/'', lit ''tmp'', lit ''x''] = Some (lit ''hello'')"
  by (simp_all add: receive_defs)

section \<open>Properties of the office backend\<close>

lemma join_parts_nonempty: "p \<noteq> [] \<Longrightarrow> last p \<noteq> [] \<Longrightarrow> join_parts p \<noteq> []"
  by (induction p rule: join_parts.induct) auto

lemma str_of_path_nonempty: "last p \<noteq> [] \<Longrightarrow> str_of_path p \<noteq> []"
  by (auto simp: str_of_path_def is_root_def lit_def join_parts_nonempty)

lemma find_soffice_nonempty:
  assumes "find_soffice e w = Some s"
  shows "s \<noteq> []"
proof -
  have "\<And>c. c \<in> set (mac_candidates e) \<Longrightarrow> str_of_path c \<noteq> []"
    by (rule str_of_path_nonempty) (auto simp: mac_candidates_def lit_def)
  then show ?thesis
    using assms
    by (auto simp: find_soffice_def Let_def truthy_def find_Some_iff
             split: if_splits option.splits)
qed

lemma store_fields [simp]:
  "procs (store w p c) = procs w" "replies (store w p c) = replies w"
  "user_data (store w p c) = user_data w" "dirs (store w p c) = dirs w"
  "downloads (store w p c) = downloads w"
  by (simp_all add: store_def)

lemma fold_store_fields [simp]:
  "procs (fold (\<lambda>(p, b) v. store v p b) ws w) = procs w"
  "replies (fold (\<lambda>(p, b) v. store v p b) ws w) = replies w"
  "user_data (fold (\<lambda>(p, b) v. store v p b) ws w) = user_data w"
  "dirs (fold (\<lambda>(p, b) v. store v p b) ws w) = dirs w"
  by (induction ws arbitrary: w; simp add: split_def)+

lemma subprocess_run_timeout:
  assumes "real_of_int t < duration (spawn e c (files w))"
  shows "fst (subprocess_run e w c t) = Inl TimeoutExpired"
    and "procs (snd (subprocess_run e w c t)) = procs w @ [\<lparr>cmd = c, status = Killed\<rparr>]"
    and "replies (snd (subprocess_run e w c t)) = replies w"
    and "dirs (snd (subprocess_run e w c t)) = dirs w"
  using assms by (simp_all add: subprocess_run_def Let_def)

lemma office_timeout_aux:
  assumes "find_soffice e w = Some s"
    and "real_of_int t < duration (spawn e (soffice_cmd s input_path out_dir) (files w))"
  shows "fst (convert_office_to_pdf e w input_path out_dir t) = Inl TimeoutExpired"
    and "procs (snd (convert_office_to_pdf e w input_path out_dir t)) =
           procs w @ [\<lparr>cmd = soffice_cmd s input_path out_dir, status = Killed\<rparr>]"
    and "replies (snd (convert_office_to_pdf e w input_path out_dir t)) = replies w"
proof -
  let ?c = "soffice_cmd s input_path out_dir"
  obtain r w1 where sr: "subprocess_run e w ?c t = (r, w1)" by (cases "subprocess_run e w ?c t")
  from subprocess_run_timeout [OF assms(2)] sr
  have r: "r = Inl TimeoutExpired" and p: "procs w1 = procs w @ [\<lparr>cmd = ?c, status = Killed\<rparr>]"
    and q: "replies w1 = replies w"
    by simp_all
  have "convert_office_to_pdf e w input_path out_dir t = (Inl TimeoutExpired, w1)"
    using assms(1) find_soffice_nonempty [OF assms(1)] sr r
    by (simp add: convert_office_to_pdf_def)
  with p q show "fst (convert_office_to_pdf e w input_path out_dir t) = Inl TimeoutExpired"
    and "procs (snd (convert_office_to_pdf e w input_path out_dir t)) =
           procs w @ [\<lparr>cmd = soffice_cmd s input_path out_dir, status = Killed\<rparr>]"
    and "replies (snd (convert_office_to_pdf e w input_path out_dir t)) = replies w"
    by simp_all
qed

lemma convert_to_pdf_timeout_aux:
  assumes "classify (lower (py_suffix (path_name input_path))) = OfficeSuite"
    and "find_soffice e w = Some s"
    and "90 < duration (spawn e (soffice_cmd s input_path work_dir) (files w))"
  shows "fst (convert_to_pdf e w input_path work_dir) = Inl TimeoutExpired"
    and "procs (snd (convert_to_pdf e w input_path work_dir)) =
           procs w @ [\<lparr>cmd = soffice_cmd s input_path work_dir, status = Killed\<rparr>]"
    and "replies (snd (convert_to_pdf e w input_path work_dir)) = replies w"
proof -
  have t: "real_of_int 90 < duration (spawn e (soffice_cmd s input_path work_dir) (files w))"
    using assms(3) by simp
  obtain r w1 where co: "convert_office_to_pdf e w input_path work_dir 90 = (r, w1)"
    by (cases "convert_office_to_pdf e w input_path work_dir 90")
  from office_timeout_aux [OF assms(2) t] co
  have "r = Inl TimeoutExpired"
    and "procs w1 = procs w @ [\<lparr>cmd = soffice_cmd s input_path work_dir, status = Killed\<rparr>]"
    and "replies w1 = replies w"
    by simp_all
  then show "fst (convert_to_pdf e w input_path work_dir) = Inl TimeoutExpired"
    and "procs (snd (convert_to_pdf e w input_path work_dir)) =
           procs w @ [\<lparr>cmd = soffice_cmd s input_path work_dir, status = Killed\<rparr>]"
    and "replies (snd (convert_to_pdf e w input_path work_dir)) = replies w"
    using assms(1) co by (simp_all add: convert_to_pdf_classify)
qed

lemma locate_reply_text [simp]: "locate (reply_text w r) p = locate w p"
  by (rule locate_cong) (simp add: reply_text_def)

lemma files_reply_text [simp]: "files (reply_text w r) = files w"
  by (simp add: reply_text_def)

lemma dirs_reply_text [simp]: "dirs (reply_text w r) = dirs w"
  by (simp add: reply_text_def)

lemma path_exists_reply_text [simp]: "path_exists (reply_text w r) p = path_exists w p"
  by (simp add: path_exists_def is_dir_def is_file_def split: option.splits)

lemma find_soffice_reply_text [simp]: "find_soffice e (reply_text w r) = find_soffice e w"
proof -
  have h: "path_exists (reply_text w r) = path_exists w" by (rule ext) simp
  show ?thesis unfolding find_soffice_def h by (rule refl)
qed

lemma replies_clear_user_data [simp]: "replies (clear_user_data w) = replies w"
  by (simp add: clear_user_data_def)

lemma name_step_timeout_aux:
  assumes "path_exists w (get_path w (lit ''work_dir''))"
    and "path_exists w (get_path w (lit ''input_path''))"
    and "classify (lower (py_suffix (path_name (get_path w (lit ''input_path''))))) = OfficeSuite"
    and "find_soffice e w = Some s"
    and "90 < duration (spawn e (soffice_cmd s (get_path w (lit ''input_path''))
                                   (get_path w (lit ''work_dir''))) (files w))"
  shows "fst (receive_name_and_convert e w msg) = END"
    and "replies (snd (receive_name_and_convert e w msg)) = replies w @ [Converting, ConversionTimedOut]"
proof -
  let ?ip = "get_path w (lit ''input_path'')" and ?wd = "get_path w (lit ''work_dir'')"
  let ?w1 = "reply_text w Converting"
  obtain r w2 where c: "convert_to_pdf e ?w1 ?ip ?wd = (r, w2)"
    by (cases "convert_to_pdf e ?w1 ?ip ?wd")
  have "find_soffice e ?w1 = Some s" using assms(4) by simp
  moreover have "90 < duration (spawn e (soffice_cmd s ?ip ?wd) (files ?w1))"
    using assms(5) by simp
  ultimately have "r = Inl TimeoutExpired" and "replies w2 = replies ?w1"
    using convert_to_pdf_timeout_aux [OF assms(3), of e ?w1 s ?wd] c by simp_all
  then show "fst (receive_name_and_convert e w msg) = END"
    and "replies (snd (receive_name_and_convert e w msg)) = replies w @ [Converting, ConversionTimedOut]"
    using assms(1,2) c by (simp_all add: receive_name_and_convert_def Let_def)
qed

text \<open>
  Claim C4. When the engine is found and its run lasts longer than the timeout, the
  office backend ends with \<open>TimeoutExpired\<close> (not \<open>CalledProcessError\<close>, not
  \<open>RuntimeError\<close>) and the process table shows the child it started as killed, so it
  no longer runs. The dispatcher calls the backend with the default of 90 seconds and
  hands the error on unchanged, and the name step answers such a job with the timeout
  text and ends the conversation.
\<close>

theorem office_timeout:
  assumes "find_soffice e w = Some s"
  shows "(real_of_int t < duration (spawn e (soffice_cmd s input_path out_dir) (files w)) \<longrightarrow>
            fst (convert_office_to_pdf e w input_path out_dir t) = Inl TimeoutExpired \<and>
            procs (snd (convert_office_to_pdf e w input_path out_dir t)) =
              procs w @ [\<lparr>cmd = soffice_cmd s input_path out_dir, status = Killed\<rparr>]) \<and>
         (classify (lower (py_suffix (path_name input_path))) = OfficeSuite \<and>
          90 < duration (spawn e (soffice_cmd s input_path out_dir) (files w)) \<longrightarrow>
            fst (convert_to_pdf e w input_path out_dir) = Inl TimeoutExpired \<and>
            procs (snd (convert_to_pdf e w input_path out_dir)) =
              procs w @ [\<lparr>cmd = soffice_cmd s input_path out_dir, status = Killed\<rparr>]) \<and>
         (classify (lower (py_suffix (path_name input_path))) = OfficeSuite \<and>
          90 < duration (spawn e (soffice_cmd s input_path out_dir) (files w)) \<and>
          get_path w (lit ''work_dir'') = out_dir \<and> get_path w (lit ''input_path'') = input_path \<and>
          path_exists w out_dir \<and> path_exists w input_path \<longrightarrow>
            fst (receive_name_and_convert e w msg) = END \<and>
            replies (snd (receive_name_and_convert e w msg)) =
              replies w @ [Converting, ConversionTimedOut])"
  using office_timeout_aux [OF assms] convert_to_pdf_timeout_aux [OF _ assms]
    name_step_timeout_aux [OF _ _ _ assms]
  by auto

lemma find_soffice_example: "find_soffice slow_env office_world = Some (lit ''/usr/bin/soffice'')"
  by (simp add: find_soffice_def slow_env_def example_env_def truthy_def lit_def)

lemma classify_docx: "classify (lower (py_suffix (path_name docx_path))) = OfficeSuite"
  by (simp add: docx_path_def job_dir_def path_name_def py_suffix_def rfind_def lower_def
        classify_def IMAGE_EXTS_def TEXT_EXTS_def lit_def)

theorem office_timeout_witness:
  "find_soffice slow_env office_world = Some (lit ''/usr/bin/soffice'') \<and>
   classify (lower (py_suffix (path_name docx_path))) = OfficeSuite \<and>
   90 < duration (spawn slow_env (soffice_cmd (lit ''/usr/bin/soffice'') docx_path job_dir)
                    (files office_world)) \<and>
   get_path office_world (lit ''work_dir'') = job_dir \<and>
   get_path office_world (lit ''input_path'') = docx_path \<and>
   path_exists office_world job_dir \<and> path_exists office_world docx_path \<and>
   fst (convert_to_pdf slow_env office_world docx_path job_dir) = Inl TimeoutExpired \<and>
   procs (snd (convert_to_pdf slow_env office_world docx_path job_dir)) =
     [\<lparr>cmd = soffice_cmd (lit ''/usr/bin/soffice'') docx_path job_dir, status = Killed\<rparr>] \<and>
   fst (receive_name_and_convert slow_env office_world (text_message (lit ''report''))) = END \<and>
   replies (snd (receive_name_and_convert slow_env office_world (text_message (lit ''report'')))) =
     [Converting, ConversionTimedOut]"
proof -
  have d: "90 < duration (spawn slow_env (soffice_cmd (lit ''/usr/bin/soffice'') docx_path job_dir)
                    (files office_world))"
    by (simp add: slow_env_def)
  have g: "get_path office_world (lit ''work_dir'') = job_dir"
      "get_path office_world (lit ''input_path'') = docx_path"
    by (simp_all add: get_path_def office_world_def lit_def)
  have x: "path_exists office_world job_dir" "path_exists office_world docx_path"
    by (simp_all add: fs_defs office_world_def docx_path_def job_dir_def lit_def)
  have p: "procs office_world = []" "replies office_world = []"
    by (simp_all add: office_world_def)
  from office_timeout [OF find_soffice_example, of 90 docx_path job_dir "text_message (lit ''report'')"]
    classify_docx d g x p find_soffice_example
  show ?thesis by simp
qed

text \<open>
  Claim C5. When the backend locator finds no engine, dispatching an input that is
  routed to the office backend fails with the engine-not-found error (the
  \<open>RuntimeError\<close> that carries the not-found text) and leaves the world as it was: no
  child process is started.
\<close>

theorem engine_not_found:
  assumes "find_soffice e w = None"
    and "classify (lower (py_suffix (path_name input_path))) = OfficeSuite"
  shows "convert_to_pdf e w input_path work_dir = (Inl (RuntimeError msg_not_found), w) \<and>
         procs (snd (convert_to_pdf e w input_path work_dir)) = procs w"
  using assms by (simp add: convert_to_pdf_classify convert_office_to_pdf_def)

lemma find_soffice_none: "find_soffice no_engine_env office_world = None"
  by (simp add: find_soffice_def no_engine_env_def example_env_def truthy_def
        mac_candidates_def fs_defs office_world_def docx_path_def job_dir_def lit_def)

theorem engine_not_found_witness:
  "find_soffice no_engine_env office_world = None \<and>
   classify (lower (py_suffix (path_name docx_path))) = OfficeSuite \<and>
   convert_to_pdf no_engine_env office_world docx_path job_dir =
     (Inl (RuntimeError msg_not_found), office_world) \<and>
   procs (snd (convert_to_pdf no_engine_env office_world docx_path job_dir)) = []"
proof -
  have p: "procs office_world = []" by (simp add: office_world_def)
  from engine_not_found [OF find_soffice_none classify_docx, of job_dir] p
    find_soffice_none classify_docx
  show ?thesis by simp
qed

section \<open>Output discovery\<close>

lemma sorted_le_last: "sorted xs \<Longrightarrow> x \<in> set xs \<Longrightarrow> x \<le> last xs"
  by (induction xs) auto

lemma set_sorted_reverse [simp]: "set (sorted_reverse f xs) = set xs"
  by (simp add: sorted_reverse_def)

lemma sorted_reverse_Nil_iff [simp]: "sorted_reverse f xs = [] \<longleftrightarrow> xs = []"
proof -
  have "length (sorted_reverse f xs) = length xs" by (simp add: sorted_reverse_def)
  then show ?thesis by (metis length_0_conv)
qed

lemma hd_sorted_reverse:
  assumes "xs \<noteq> []"
  shows "hd (sorted_reverse f xs) \<in> set xs"
    and "\<forall>y \<in> set xs. f y \<le> f (hd (sorted_reverse f xs))"
proof -
  let ?ys = "sort_key f (rev xs)"
  have ne: "?ys \<noteq> []" using assms by (metis length_0_conv length_sort length_rev)
  have hd: "hd (sorted_reverse f xs) = last ?ys" by (simp add: sorted_reverse_def hd_rev)
  show "hd (sorted_reverse f xs) \<in> set xs"
    using ne hd last_in_set [OF ne] by simp
  show "\<forall>y \<in> set xs. f y \<le> f (hd (sorted_reverse f xs))"
  proof
    fix y assume "y \<in> set xs"
    then have "f y \<in> set (map f ?ys)" by simp
    then have "f y \<le> last (map f ?ys)"
      using sorted_le_last [of "map f ?ys" "f y"] by simp
    then show "f y \<le> f (hd (sorted_reverse f xs))"
      using ne hd by (simp add: last_map)
  qed
qed

lemma subprocess_run_ok_iff:
  "fst (subprocess_run e w c t) = Inr u \<longleftrightarrow>
     duration (spawn e c (files w)) \<le> real_of_int t \<and> returncode (spawn e c (files w)) = 0"
  by (auto simp: subprocess_run_def Let_def)

text \<open>
  Claim C7. After the engine has ended in time with exit code 0, the office backend
  looks in the working directory as it is then: when the file named after the stem of
  the input with \<^verbatim>\<open>.pdf\<close> exists, it is the result; otherwise, when the directory holds
  files matching \<^verbatim>\<open>*.pdf\<close>, the result is one of them whose modification time no other
  exceeds; and when it holds none, the backend fails with the no-output error (the
  \<open>RuntimeError\<close> that carries the no-PDF text).
\<close>

theorem office_output_discovery:
  fixes e w s input_path out_dir t
  defines "c \<equiv> soffice_cmd s input_path out_dir"
  defines "w1 \<equiv> snd (subprocess_run e w c t)"
  defines "expected \<equiv> out_dir @ [py_stem (path_name input_path) @ lit ''.pdf'']"
  defines "pdfs \<equiv> glob_pdf (scan_key e) w1 out_dir"
  assumes "find_soffice e w = Some s"
    and "duration (spawn e c (files w)) \<le> real_of_int t"
    and "returncode (spawn e c (files w)) = 0"
  shows "(path_exists w1 expected \<longrightarrow>
            convert_office_to_pdf e w input_path out_dir t = (Inr expected, w1)) \<and>
         (\<not> path_exists w1 expected \<and> pdfs \<noteq> [] \<longrightarrow>
            (\<exists>p. convert_office_to_pdf e w input_path out_dir t = (Inr p, w1) \<and>
                 p \<in> set pdfs \<and> (\<forall>q \<in> set pdfs. mtime_of w1 q \<le> mtime_of w1 p))) \<and>
         (\<not> path_exists w1 expected \<and> pdfs = [] \<longrightarrow>
            convert_office_to_pdf e w input_path out_dir t = (Inl (RuntimeError msg_no_pdf), w1))"
proof -
  have "fst (subprocess_run e w c t) = Inr ()"
    using assms(6,7) by (simp add: subprocess_run_ok_iff)
  then have sr: "subprocess_run e w c t = (Inr (), w1)"
    unfolding w1_def by (simp add: prod_eq_iff)
  have ne: "s \<noteq> []" using assms(5) by (rule find_soffice_nonempty)
  have co: "convert_office_to_pdf e w input_path out_dir t =
      (if path_exists w1 expected then (Inr expected, w1)
       else if pdfs = [] then (Inl (RuntimeError msg_no_pdf), w1)
       else (Inr (hd (sorted_reverse (mtime_of w1) pdfs)), w1))"
    using assms(5) ne sr
    by (simp add: convert_office_to_pdf_def c_def [symmetric] expected_def pdfs_def Let_def)
  show ?thesis
    using co hd_sorted_reverse [of pdfs "mtime_of w1"] by auto
qed

lemma find_naming: "find_soffice (naming_env nm) w = Some (lit ''/usr/bin/soffice'')"
  by (simp add: find_soffice_def naming_env_def example_env_def truthy_def lit_def)

lemma find_example: "find_soffice example_env w = Some (lit ''/usr/bin/soffice'')"
  by (simp add: find_soffice_def example_env_def truthy_def lit_def)

lemma spawn_naming: "spawn (naming_env nm) c fs = \<lparr>duration = 2, returncode = 0, writes = [(job_dir @ [nm], lit ''%PDF-1'')]\<rparr>"
  by (simp add: naming_env_def)

lemma spawn_example: "spawn example_env c fs = idle_run"
  by (simp add: example_env_def)

lemma expected_docx: "py_stem (path_name docx_path) @ lit ''.pdf'' = lit ''report.pdf''"
  by (simp add: docx_path_def job_dir_def path_name_def py_stem_def rfind_def lit_def)

theorem office_output_discovery_witness:
  "find_soffice (naming_env (lit ''report.pdf'')) office_world = Some (lit ''/usr/bin/soffice'') \<and>
   duration (spawn (naming_env (lit ''report.pdf'')) (soffice_cmd (lit ''/usr/bin/soffice'') docx_path job_dir) (files office_world)) \<le> real_of_int 90 \<and>
   returncode (spawn (naming_env (lit ''report.pdf'')) (soffice_cmd (lit ''/usr/bin/soffice'') docx_path job_dir) (files office_world)) = 0 \<and>
   fst (convert_office_to_pdf (naming_env (lit ''report.pdf'')) office_world docx_path job_dir 90) = Inr (job_dir @ [lit ''report.pdf'']) \<and>
   fst (convert_office_to_pdf (naming_env (lit ''Bericht.pdf'')) stale_world docx_path job_dir 90) = Inr (job_dir @ [lit ''Bericht.pdf'']) \<and>
   fst (convert_office_to_pdf example_env office_world docx_path job_dir 90) = Inl (RuntimeError msg_no_pdf)"
proof -
  let ?c = "soffice_cmd (lit ''/usr/bin/soffice'') docx_path job_dir"
  let ?A = "naming_env (lit ''report.pdf'')" and ?B = "naming_env (lit ''Bericht.pdf'')"
  have wa: "snd (subprocess_run ?A office_world ?c 90) =
      (store office_world (job_dir @ [lit ''report.pdf'']) (lit ''%PDF-1''))
        \<lparr>procs := [\<lparr>cmd = ?c, status = Exited 0\<rparr>]\<rparr>"
    by (simp add: subprocess_run_def spawn_naming Let_def store_def office_world_def)
  have xa: "path_exists (snd (subprocess_run ?A office_world ?c 90)) (job_dir @ [lit ''report.pdf''])"
    unfolding wa
    by (simp add: fs_defs store_def office_world_def docx_path_def job_dir_def lit_def)
  from office_output_discovery [OF find_naming, of "lit ''report.pdf''" docx_path job_dir office_world 90]
    xa
  have a: "fst (convert_office_to_pdf ?A office_world docx_path job_dir 90) = Inr (job_dir @ [lit ''report.pdf''])"
    by (simp add: spawn_naming expected_docx)
  have wb: "snd (subprocess_run ?B stale_world ?c 90) =
      (store stale_world (job_dir @ [lit ''Bericht.pdf'']) (lit ''%PDF-1''))
        \<lparr>procs := [\<lparr>cmd = ?c, status = Exited 0\<rparr>]\<rparr>"
    by (simp add: subprocess_run_def spawn_naming Let_def store_def stale_world_def office_world_def)
  have xb: "\<not> path_exists (snd (subprocess_run ?B stale_world ?c 90)) (job_dir @ [lit ''report.pdf''])"
    unfolding wb
    by (simp add: fs_defs store_def stale_world_def office_world_def
          docx_path_def job_dir_def lit_def)
  have gb: "glob_pdf (scan_key ?B) (snd (subprocess_run ?B stale_world ?c 90)) job_dir =
      [job_dir @ [lit ''old.pdf''], job_dir @ [lit ''Bericht.pdf'']]"
    unfolding wb
    by (simp add: glob_pdf_def fs_defs store_def stale_world_def office_world_def docx_path_def
          ends_pdf_def suffix_def lit_def job_dir_def naming_env_def example_env_def)
  have mb: "mtime_of (snd (subprocess_run ?B stale_world ?c 90)) (job_dir @ [lit ''old.pdf'']) = 0"
      "mtime_of (snd (subprocess_run ?B stale_world ?c 90)) (job_dir @ [lit ''Bericht.pdf'']) = 2"
    unfolding wb
    by (simp_all add: mtime_of_def fs_defs store_def stale_world_def office_world_def docx_path_def
          lit_def job_dir_def)
  from office_output_discovery [OF find_naming, of "lit ''Bericht.pdf''" docx_path job_dir stale_world 90]
    xb gb mb
  have b: "fst (convert_office_to_pdf ?B stale_world docx_path job_dir 90) = Inr (job_dir @ [lit ''Bericht.pdf''])"
    by (auto simp: spawn_naming expected_docx)
  have wc: "snd (subprocess_run example_env office_world ?c 90) =
      office_world\<lparr>procs := [\<lparr>cmd = ?c, status = Exited 0\<rparr>]\<rparr>"
    by (simp add: subprocess_run_def spawn_example idle_run_def Let_def office_world_def)
  have xc: "\<not> path_exists (snd (subprocess_run example_env office_world ?c 90)) (job_dir @ [lit ''report.pdf''])"
    unfolding wc
    by (simp add: fs_defs office_world_def docx_path_def job_dir_def lit_def)
  have gc: "glob_pdf (scan_key example_env) (snd (subprocess_run example_env office_world ?c 90)) job_dir = []"
    unfolding wc
    by (simp add: glob_pdf_def fs_defs office_world_def docx_path_def
          ends_pdf_def suffix_def lit_def job_dir_def)
  from office_output_discovery [OF find_example, of docx_path job_dir office_world 90]
    xc gc
  have c: "fst (convert_office_to_pdf example_env office_world docx_path job_dir 90) = Inl (RuntimeError msg_no_pdf)"
    by (simp add: spawn_example idle_run_def expected_docx)
  show ?thesis using find_naming a b c by (simp add: spawn_naming)
qed

section \<open>Properties of the dispatcher\<close>

lemma locate_store [simp]: "locate (store w c b) p = locate w p"
  by (rule locate_cong) (simp add: store_def)

lemma write_bytes_result:
  assumes "write_bytes w p c = Inr w'"
  shows "is_file w' p" and "read_bytes w' p = Some c"
  using assms
  by (auto simp: write_bytes_def is_file_def read_bytes_def split: if_splits option.splits)
     (simp_all add: store_def map_of_put)

lemma copyfile_result:
  assumes "copyfile w src dst = Inr w'"
  shows "is_file w' dst" and "read_bytes w' dst = read_bytes w src"
  using assms write_bytes_result [of w dst _ w']
  by (auto simp: copyfile_def split: if_splits option.splits)

lemma convert_image_result:
  assumes "convert_image_to_pdf e w i p = Inr w'"
  shows "is_file w' p"
  using assms write_bytes_result(1) [of w p _ w']
  by (auto simp: convert_image_to_pdf_def split: option.splits sum.splits)

lemma convert_text_result:
  assumes "convert_text_to_pdf e w i p = Inr w'"
  shows "is_file w' p"
  using assms write_bytes_result(1) [of w p _ w']
  by (auto simp: convert_text_to_pdf_def split: option.splits)

text \<open>
  Claim C2, as amended. Whenever the dispatcher succeeds, the path it returns is
  \<^verbatim>\<open>output.pdf\<close> inside the working directory, whichever backend ran, and that file
  exists afterwards. Its bytes are what the backend produced and are not tested: for
  a pass-through input they are the bytes of the input.
\<close>

theorem dispatcher_output_path:
  assumes "convert_to_pdf e w input_path work_dir = (Inr p, w')"
  shows "p = work_dir @ [lit ''output.pdf''] \<and> is_file w' p \<and> path_exists w' p \<and>
         (classify (lower (py_suffix (path_name input_path))) = PassThrough \<longrightarrow>
            read_bytes w' p = read_bytes w input_path)"
proof (cases "classify (lower (py_suffix (path_name input_path)))")
  case PassThrough
  with assms show ?thesis
    by (auto simp: convert_to_pdf_classify path_exists_def split: sum.splits
             dest: copyfile_result)
next
  case Image_strategy
  with assms show ?thesis
    by (auto simp: convert_to_pdf_classify path_exists_def split: sum.splits
             dest: convert_image_result)
next
  case Text_strategy
  with assms show ?thesis
    by (auto simp: convert_to_pdf_classify path_exists_def split: sum.splits
             dest: convert_text_result)
next
  case OfficeSuite
  with assms show ?thesis
    by (auto simp: convert_to_pdf_classify path_exists_def split: sum.splits prod.splits
             dest: copyfile_result)
qed

lemma classify_scan: "classify (lower (py_suffix (path_name (job_dir @ [lit ''scan.pdf''])))) = PassThrough"
  by (simp add: job_dir_def path_name_def py_suffix_def rfind_def lower_def classify_def lit_def)

lemma copy_scan:
  "copyfile (pdf_world data) (job_dir @ [lit ''scan.pdf'']) (job_dir @ [lit ''output.pdf'']) =
     Inr (store (pdf_world data) (job_dir @ [lit ''output.pdf'']) data)"
  by (simp add: copyfile_def samefile_def read_bytes_def write_bytes_def fs_defs pdf_world_def
        job_dir_def lit_def)

lemma convert_scan:
  "convert_to_pdf example_env (pdf_world data) (job_dir @ [lit ''scan.pdf'']) job_dir =
     (Inr (job_dir @ [lit ''output.pdf'']),
      store (pdf_world data) (job_dir @ [lit ''output.pdf'']) data)"
  by (simp add: convert_to_pdf_classify classify_scan copy_scan)

theorem dispatcher_output_path_witness:
  "convert_to_pdf example_env (pdf_world (lit ''%PDF-1.4'')) (job_dir @ [lit ''scan.pdf'']) job_dir =
     (Inr (job_dir @ [lit ''output.pdf'']),
      store (pdf_world (lit ''%PDF-1.4'')) (job_dir @ [lit ''output.pdf'']) (lit ''%PDF-1.4'')) \<and>
   classify (lower (py_suffix (path_name (job_dir @ [lit ''scan.pdf''])))) = PassThrough \<and>
   is_file (store (pdf_world (lit ''%PDF-1.4'')) (job_dir @ [lit ''output.pdf'']) (lit ''%PDF-1.4''))
     (job_dir @ [lit ''output.pdf'']) \<and>
   read_bytes (store (pdf_world (lit ''%PDF-1.4'')) (job_dir @ [lit ''output.pdf'']) (lit ''%PDF-1.4''))
     (job_dir @ [lit ''output.pdf'']) = Some (lit ''%PDF-1.4'')"
proof -
  have r: "read_bytes (pdf_world (lit ''%PDF-1.4'')) (job_dir @ [lit ''scan.pdf'']) = Some (lit ''%PDF-1.4'')"
    by (simp add: read_bytes_def fs_defs pdf_world_def job_dir_def lit_def)
  from dispatcher_output_path [OF convert_scan [of "lit ''%PDF-1.4''"]] classify_scan r convert_scan
  show ?thesis by simp
qed

text \<open>
  The dispatcher does not test the output for emptiness: on an uploaded PDF of zero
  bytes it succeeds, and \<^verbatim>\<open>output.pdf\<close> is empty.
\<close>

theorem dispatcher_output_empty:
  "fst (convert_to_pdf example_env (pdf_world []) (job_dir @ [lit ''scan.pdf'']) job_dir) =
     Inr (job_dir @ [lit ''output.pdf'']) \<and>
   read_bytes (snd (convert_to_pdf example_env (pdf_world []) (job_dir @ [lit ''scan.pdf'']) job_dir))
     (job_dir @ [lit ''output.pdf'']) = Some []"
  by (simp add: convert_scan read_bytes_def) (simp add: fs_defs store_def map_of_put pdf_world_def job_dir_def lit_def)

section \<open>Properties of the session state machine\<close>

lemma choose_a_txt:
  "choose_file (document_message (lit ''a.txt'') None) = Some (lit ''id1'', lit ''a.txt'', None)"
  by (simp add: choose_file_def document_message_def truthy_def lit_def)

lemma receive_a_txt:
  "receive_file example_env example_world (document_message (lit ''a.txt'') None) =
     (Inr WAIT_NAME,
      \<lparr>files = [(job_dir @ [lit ''a.txt''], \<lparr>content = lit ''hello'', mtime = 1\<rparr>)],
       dirs = [[lit ''/''], [lit ''/'', lit ''tmp''], job_dir], clock = 2,
       ticks = [1, 1, 1], procs = [],
       user_data = [(lit ''work_dir'', job_dir), (lit ''input_path'', job_dir @ [lit ''a.txt''])],
       replies = [GotIt (lit ''a'')], downloads = [lit ''id1''], tmp_calls = 1\<rparr>)"
proof -
  have n: "path_name (parts_of (lit ''a.txt'')) = lit ''a.txt''"
    by (simp add: path_name_def parts_of_def path_root_def pieces_def is_root_def lit_def)
  have s: "sanitize_filename (py_stem (path_name (parts_of (lit ''a.txt'')))) 64 = lit ''a''"
    unfolding n
    by (simp add: sanitize_filename_def py_stem_def rfind_def strip_def isspace_def
          sub_pdf_end_def is_dot_pdf_def keep_def slice_to_def lit_def Let_def)
  have j: "joinpath job_dir (lit ''a.txt'') = job_dir @ [lit ''a.txt'']"
    by (rule joinpath_plain) (simp add: plain_name_def lit_def)
  have g: "get_file example_env (lit ''id1'') = Inr (lit ''hello'')"
    by (simp add: example_env_def)
  have t: "\<not> too_big None" by (simp add: too_big_def)
  have w: "write_bytes (example_world\<lparr>tmp_calls := Suc 0, dirs := dirs example_world @ [job_dir],
                          downloads := downloads example_world @ [lit ''id1'']\<rparr>)
             (job_dir @ [lit ''a.txt'']) (lit ''hello'') =
       Inr \<lparr>files = [(job_dir @ [lit ''a.txt''], \<lparr>content = lit ''hello'', mtime = 1\<rparr>)],
            dirs = [[lit ''/''], [lit ''/'', lit ''tmp''], job_dir], clock = 2,
            ticks = [1, 1, 1], procs = [],
            user_data = [], replies = [], downloads = [lit ''id1''], tmp_calls = 1\<rparr>"
    by (simp add: write_bytes_def store_def fs_defs example_world_def job_dir_def lit_def)
  have k: "lit ''input_path'' \<noteq> lit ''work_dir''" by (simp add: lit_def)
  show ?thesis
    using k by (simp add: receive_file_def choose_a_txt t mk_ex Let_def g j w s reply_text_def)
qed

text \<open>
  Claim C1. Cancellation does not remove the working directory: after a document has
  been received, so that the job waits for its name in a directory of its own,
  \<open>cancel\<close> ends the conversation and empties the stored job data, and the directory
  and the upload in it are still there.
\<close>

theorem cancel_keeps_work_dir:
  "fst (receive_file example_env example_world (document_message (lit ''a.txt'') None)) = Inr WAIT_NAME \<and>
   get_path uploaded_world (lit ''work_dir'') = job_dir \<and>
   is_dir uploaded_world job_dir \<and>
   fst (cancel uploaded_world) = END \<and>
   user_data (snd (cancel uploaded_world)) = [] \<and>
   path_exists (snd (cancel uploaded_world)) job_dir \<and>
   is_file (snd (cancel uploaded_world)) (job_dir @ [lit ''a.txt''])"
  by (simp add: uploaded_world_def receive_a_txt cancel_def clear_user_data_def reply_text_def
        get_path_def path_exists_def is_dir_def is_file_def)
     (simp add: locate_def is_abs_def is_root_def dir_at_def job_dir_def lit_def)

lemma get_path_cwd: "get_path cwd_world k = []"
  by (simp add: get_path_def cwd_world_def example_world_def)

lemma classify_empty_path: "classify (lower (py_suffix (path_name []))) = OfficeSuite"
  by (simp add: path_name_def py_suffix_def rfind_def lower_def classify_def IMAGE_EXTS_def
        TEXT_EXTS_def lit_def)

lemma run_cwd:
  "subprocess_run example_env (reply_text cwd_world Converting)
      (soffice_cmd (lit ''/usr/bin/soffice'') [] []) 90 =
     (Inr (), (reply_text cwd_world Converting)
        \<lparr>procs := [\<lparr>cmd = soffice_cmd (lit ''/usr/bin/soffice'') [] [], status = Exited 0\<rparr>]\<rparr>)"
  by (simp add: subprocess_run_def spawn_example idle_run_def Let_def reply_text_def
        cwd_world_def example_world_def)

lemma convert_cwd:
  "convert_to_pdf example_env (reply_text cwd_world Converting) [] [] =
     (Inl (RuntimeError msg_no_pdf),
      (reply_text cwd_world Converting)
        \<lparr>procs := [\<lparr>cmd = soffice_cmd (lit ''/usr/bin/soffice'') [] [], status = Exited 0\<rparr>]\<rparr>)"
proof -
  have n: "lit ''/usr/bin/soffice'' \<noteq> []" by (simp add: lit_def)
  have x: "\<not> path_exists ((reply_text cwd_world Converting)
        \<lparr>procs := [\<lparr>cmd = soffice_cmd (lit ''/usr/bin/soffice'') [] [], status = Exited 0\<rparr>]\<rparr>)
        [py_stem (path_name []) @ lit ''.pdf'']"
    by (simp add: fs_defs reply_text_def cwd_world_def
          example_world_def path_name_def py_stem_def rfind_def lit_def)
  have g: "glob_pdf (scan_key example_env) ((reply_text cwd_world Converting)
        \<lparr>procs := [\<lparr>cmd = soffice_cmd (lit ''/usr/bin/soffice'') [] [], status = Exited 0\<rparr>]\<rparr>) [] = []"
    by (simp add: glob_pdf_def fs_defs reply_text_def cwd_world_def example_world_def
          ends_pdf_def suffix_def lit_def)
  have "convert_office_to_pdf example_env (reply_text cwd_world Converting) [] [] 90 =
      (Inl (RuntimeError msg_no_pdf), (reply_text cwd_world Converting)
        \<lparr>procs := [\<lparr>cmd = soffice_cmd (lit ''/usr/bin/soffice'') [] [], status = Exited 0\<rparr>]\<rparr>)"
    using n x g by (simp add: convert_office_to_pdf_def find_example run_cwd Let_def)
  then show ?thesis
    by (simp add: convert_to_pdf_classify classify_empty_path)
qed

lemma name_step_cwd:
  "receive_name_and_convert example_env cwd_world (text_message (lit ''report'')) =
     (END,
      \<lparr>files = [], dirs = [[lit ''/''], [lit ''/'', lit ''tmp'']], clock = 1,
       ticks = [1, 1, 1, 1],
       procs = [\<lparr>cmd = soffice_cmd (lit ''/usr/bin/soffice'') [] [], status = Exited 0\<rparr>],
       user_data = [], replies = [Converting, ConversionFailed (RuntimeError msg_no_pdf)],
       downloads = [], tmp_calls = 0\<rparr>)"
proof -
  have e: "path_exists cwd_world []" by (simp add: fs_defs)
  have r: "rmtree (clear_user_data (reply_text ((reply_text cwd_world Converting)
        \<lparr>procs := [\<lparr>cmd = soffice_cmd (lit ''/usr/bin/soffice'') [] [], status = Exited 0\<rparr>]\<rparr>)
        (ConversionFailed (RuntimeError msg_no_pdf)))) [] =
      \<lparr>files = [], dirs = [[lit ''/''], [lit ''/'', lit ''tmp'']], clock = 1,
       ticks = [1, 1, 1, 1],
       procs = [\<lparr>cmd = soffice_cmd (lit ''/usr/bin/soffice'') [] [], status = Exited 0\<rparr>],
       user_data = [], replies = [Converting, ConversionFailed (RuntimeError msg_no_pdf)],
       downloads = [], tmp_calls = 0\<rparr>"
    by (simp add: rmtree_def fs_defs inside_def clear_user_data_def reply_text_def
          cwd_world_def example_world_def lit_def)
  show ?thesis
    using e by (simp add: receive_name_and_convert_def get_path_cwd Let_def convert_cwd r)
qed

text \<open>
  Claim C3. At the name step with no stored job data at all, both stored paths read as
  \<^verbatim>\<open>Path("")\<close>, the current directory, which exists: no loss of context is reported,
  the dispatcher runs (the engine is started on the current directory), and the
  cleanup then empties the current directory.
\<close>

theorem name_step_without_context:
  "user_data cwd_world = [] \<and>
   fst (receive_name_and_convert example_env cwd_world (text_message (lit ''report''))) = END \<and>
   replies (snd (receive_name_and_convert example_env cwd_world (text_message (lit ''report'')))) =
     [Converting, ConversionFailed (RuntimeError msg_no_pdf)] \<and>
   procs (snd (receive_name_and_convert example_env cwd_world (text_message (lit ''report'')))) =
     [\<lparr>cmd = soffice_cmd (lit ''/usr/bin/soffice'') [] [], status = Exited 0\<rparr>] \<and>
   is_file cwd_world [lit ''bot.py''] \<and>
   \<not> is_file (snd (receive_name_and_convert example_env cwd_world (text_message (lit ''report''))))
       [lit ''bot.py'']"
  by (simp add: name_step_cwd is_file_def locate_def is_abs_def is_root_def dir_at_def)
     (simp add: cwd_world_def example_world_def lit_def)

theorem name_step_without_context_witness:
  "path_exists cwd_world (get_path cwd_world (lit ''work_dir'')) \<and>
   path_exists cwd_world (get_path cwd_world (lit ''input_path'')) \<and>
   LostFileContext \<notin>
     set (replies (snd (receive_name_and_convert example_env cwd_world
                         (text_message (lit ''report'')))))"
proof -
  have e: "path_exists cwd_world []" by (simp add: fs_defs)
  from name_step_without_context
  have "replies (snd (receive_name_and_convert example_env cwd_world
                        (text_message (lit ''report'')))) =
      [Converting, ConversionFailed (RuntimeError msg_no_pdf)]"
    by blast
  with e show ?thesis by (simp add: get_path_cwd)
qed

section \<open>Properties of a second run\<close>

lemma bytes_at_store:
  "bytes_at (store v x b) y = (if y = x then Some b else bytes_at v y)"
  by (simp add: bytes_at_def store_def map_of_put)

lemma bytes_at_apply_writes:
  "bytes_at (apply_writes ws v) y =
     (case map_of (rev ws) y of Some b \<Rightarrow> Some b | None \<Rightarrow> bytes_at v y)"
proof (induction ws arbitrary: v)
  case Nil
  then show ?case by simp
next
  case (Cons a ws)
  obtain x b where a: "a = (x, b)" by (cases a)
  show ?case
    using Cons.IH [of "store v x b"]
    by (simp add: a bytes_at_store map_add_def split: option.splits)
qed

lemma read_bytes_at:
  "read_bytes v p = (case locate v p of None \<Rightarrow> None | Some c \<Rightarrow> bytes_at v c)"
  by (simp add: read_bytes_def bytes_at_def split: option.splits)

lemma is_file_at:
  "is_file v p \<longleftrightarrow> (case locate v p of None \<Rightarrow> False | Some c \<Rightarrow> bytes_at v c \<noteq> None)"
  by (simp add: is_file_def bytes_at_def split: option.splits)

lemma second_writes:
  assumes "\<And>x. bytes_at w1 x = (if x = co then Some c1 else bytes_at (apply_writes ws w) x)"
  shows "x \<noteq> co \<Longrightarrow> bytes_at (apply_writes ws w1) x = bytes_at (apply_writes ws w) x"
    and "bytes_at (apply_writes ws w1) co \<noteq> None"
  by (simp_all add: bytes_at_apply_writes assms split: option.splits)

lemma subprocess_run_world:
  "bytes_at (snd (subprocess_run e w c t)) x =
     bytes_at (apply_writes (writes (spawn e c (files w))) w) x"
  "dirs (snd (subprocess_run e w c t)) = dirs w"
  by (simp_all add: subprocess_run_def Let_def bytes_at_def)

lemma ends_pdf_name:
  assumes "ends_pdf n"
  shows "n \<noteq> lit ''..''" and "\<not> is_root n" and "n \<noteq> []"
proof -
  from assms have "4 \<le> length n" by (auto simp: ends_pdf_def suffix_def lit_def)
  then show "n \<noteq> lit ''..''" and "\<not> is_root n" and "n \<noteq> []"
    by (auto simp: is_root_def lit_def)
qed

lemma ends_pdf_output: "ends_pdf (lit ''output.pdf'')"
  by (simp add: ends_pdf_def suffix_def lit_def)

lemma ends_pdf_expected: "ends_pdf (stem @ lit ''.pdf'')"
  by (simp add: ends_pdf_def suffix_def)

lemma locate_in_dir:
  assumes "ends_pdf n"
  shows "locate v (d @ [n]) =
     (case locate v d of
        None \<Rightarrow> None
      | Some c \<Rightarrow> if dir_at (dirs v) c then Some (c @ [n]) else None)"
  using ends_pdf_name [OF assms] by (simp add: locate_snoc split: option.splits)

lemma in_glob_pdf:
  assumes "q \<in> set (glob_pdf scan v d)"
  shows "\<exists>n. q = d @ [n] \<and> ends_pdf n \<and> is_file v q"
proof -
  from assms obtain c where c: "locate v d = Some c"
    by (cases "locate v d") (auto simp: glob_pdf_def)
  from assms c have dc: "dir_at (dirs v) c" by (auto simp: glob_pdf_def split: if_splits)
  from assms c dc obtain p where p: "p \<in> fst ` set (files v)" "p \<noteq> []" "butlast p = c"
      "ends_pdf (last p)" and q: "q = d @ [last p]"
    by (auto simp: glob_pdf_def)
  from p(2,3) have pc: "p = c @ [last p]" by (metis append_butlast_last_id)
  from p(1) have "map_of (files v) p \<noteq> None" by (simp add: map_of_eq_None_iff)
  with pc have "bytes_at v (c @ [last p]) \<noteq> None" by (simp add: bytes_at_def)
  then have "is_file v (d @ [last p])"
    using c dc by (simp add: is_file_at locate_in_dir [OF p(4)])
  with q p(4) show ?thesis by blast
qed

lemma discover_Inr:
  assumes "discover e v ip wd = Inr q"
  shows "path_exists v q" and "\<exists>n. q = wd @ [n] \<and> ends_pdf n"
proof -
  let ?ex = "wd @ [py_stem (path_name ip) @ lit ''.pdf'']"
  have "path_exists v q \<and> (\<exists>n. q = wd @ [n] \<and> ends_pdf n)"
  proof (cases "path_exists v ?ex")
    case True
    with assms have "q = ?ex" by (simp add: discover_def)
    with True ends_pdf_expected show ?thesis by blast
  next
    case False
    let ?g = "glob_pdf (scan_key e) v wd"
    from False assms have ne: "?g \<noteq> []" and q: "q = hd (sorted_reverse (mtime_of v) ?g)"
      by (auto simp: discover_def Let_def split: if_splits)
    from hd_sorted_reverse(1) [OF ne, of "mtime_of v"] q have "q \<in> set ?g" by simp
    from in_glob_pdf [OF this] show ?thesis by (auto simp: path_exists_def)
  qed
  then show "path_exists v q" and "\<exists>n. q = wd @ [n] \<and> ends_pdf n" by blast+
qed

lemma discover_expected:
  "path_exists v (wd @ [py_stem (path_name ip) @ lit ''.pdf'']) \<Longrightarrow>
     discover e v ip wd = Inr (wd @ [py_stem (path_name ip) @ lit ''.pdf''])"
  by (simp add: discover_def)

lemma convert_office_discover:
  assumes "find_soffice e w = Some s"
  shows "convert_office_to_pdf e w ip wd t =
     (case subprocess_run e w (soffice_cmd s ip wd) t of
        (Inl err, v) \<Rightarrow> (Inl err, v)
      | (Inr u, v) \<Rightarrow>
          (case discover e v ip wd of Inl err \<Rightarrow> (Inl err, v) | Inr q \<Rightarrow> (Inr q, v)))"
  using assms find_soffice_nonempty [OF assms]
  by (simp add: convert_office_to_pdf_def discover_def Let_def split: prod.splits sum.splits)

lemma path_exists_mono:
  assumes "dirs B = dirs A" and "\<And>x. bytes_at A x \<noteq> None \<Longrightarrow> bytes_at B x \<noteq> None"
    and "path_exists A p"
  shows "path_exists B p"
  using assms(2,3) locate_cong [OF assms(1), of p] assms(1)
  by (auto simp: path_exists_def is_dir_def is_file_at split: option.splits)

lemma write_bytes_Inr:
  assumes "write_bytes w p b = Inr w1"
  shows "\<exists>c. locate w p = Some c \<and> \<not> dir_at (dirs w) c \<and> w1 = store w c b"
  using assms by (auto simp: write_bytes_def split: option.splits if_splits)

lemma copyfile_Inr:
  assumes "copyfile w src dst = Inr w1"
  shows "\<exists>b. \<not> samefile w src dst \<and> read_bytes w src = Some b \<and> write_bytes w dst b = Inr w1"
  using assms by (auto simp: copyfile_def split: option.splits if_splits)

lemma samefile_self: "path_exists w p \<Longrightarrow> samefile w p p"
  by (simp add: samefile_def)

lemma read_bytes_exists: "read_bytes w p = Some b \<Longrightarrow> path_exists w p"
  by (auto simp: path_exists_def is_file_at read_bytes_at split: option.splits)

lemma samefile_locate:
  assumes "\<not> samefile w a b" and "path_exists w a"
  shows "locate w a \<noteq> locate w b"
proof
  assume e: "locate w a = locate w b"
  with assms(2) have "path_exists w b" by (simp add: path_exists_def is_dir_def is_file_def)
  with assms e show False by (simp add: samefile_def)
qed

text \<open>
  Writing the output again: when a file was read and the output written at another
  place, the file reads the same afterwards and the output can be written once more.
\<close>

lemma rerun_plain:
  assumes r: "read_bytes w ip = Some b" and wr: "write_bytes w out c = Inr w1"
    and ne: "locate w ip \<noteq> locate w out"
  shows "read_bytes w1 ip = Some b"
    and "\<not> samefile w1 ip out"
    and "\<exists>v. write_bytes w1 out c = Inr v \<and> read_bytes v out = read_bytes w1 out"
    and "read_bytes w1 out \<noteq> None"
proof -
  from write_bytes_Inr [OF wr] obtain co where lo: "locate w out = Some co"
    and nd: "\<not> dir_at (dirs w) co" and w1: "w1 = store w co c"
    by blast
  from r obtain ci where li: "locate w ip = Some ci" and bi: "bytes_at w ci = Some b"
    by (auto simp: read_bytes_at split: option.splits)
  from ne li lo have d: "ci \<noteq> co" by simp
  show "read_bytes w1 ip = Some b"
    using li bi d by (simp add: w1 read_bytes_at bytes_at_store)
  show "\<not> samefile w1 ip out"
    using li lo d by (simp add: w1 samefile_def)
  have "write_bytes w1 out c = Inr (store w1 co c)"
    using lo nd by (simp add: w1 write_bytes_def)
  moreover have "read_bytes (store w1 co c) out = read_bytes w1 out"
    using lo by (simp add: w1 read_bytes_at bytes_at_store)
  ultimately show "\<exists>v. write_bytes w1 out c = Inr v \<and> read_bytes v out = read_bytes w1 out"
    by blast
  show "read_bytes w1 out \<noteq> None"
    using lo by (simp add: w1 read_bytes_at bytes_at_store)
qed

lemma locate_last:
  assumes "locate w p = Some c" and "path_name p \<noteq> []" and "path_name p \<noteq> lit ''..''"
  shows "c \<noteq> [] \<and> last c = path_name p"
proof -
  from assms(2) have ne: "p \<noteq> []" and nr: "\<not> (length p = 1 \<and> is_root (hd p))"
    and pn: "path_name p = last p"
    by (auto simp: path_name_def split: if_splits)
  let ?n = "last p"
  have p: "p = butlast p @ [?n]" using ne by simp
  show ?thesis
  proof (cases "is_abs p")
    case True
    with nr ne have "butlast p \<noteq> []" by (cases p) (auto simp: is_abs_def)
    then have "tl p = tl (butlast p) @ [?n]" using p by (metis tl_append2)
    with True assms(1) have "walk (dirs w) [lit ''/''] (tl (butlast p) @ [?n]) = Some c"
      by (simp add: locate_def)
    then show ?thesis
      using assms(3) pn by (auto simp: walk_append split: option.splits if_splits)
  next
    case False
    with assms(1) have "walk (dirs w) [] (butlast p @ [?n]) = Some c"
      using p by (simp add: locate_def)
    then show ?thesis
      using assms(3) pn by (auto simp: walk_append split: option.splits if_splits)
  qed
qed

lemma classify_name:
  assumes "classify (lower (py_suffix n)) \<noteq> OfficeSuite"
  shows "n \<noteq> []" and "n \<noteq> lit ''..''"
  using assms
  by (auto simp: classify_def py_suffix_def rfind_def lower_def IMAGE_EXTS_def TEXT_EXTS_def
        lit_def)

lemma classify_output: "classify (lower (py_suffix (lit ''output.pdf''))) = PassThrough"
  by (simp add: py_suffix_def rfind_def lower_def classify_def lit_def)

lemma not_output_path:
  assumes c: "classify (lower (py_suffix (path_name ip))) \<noteq> OfficeSuite"
    and n: "classify (lower (py_suffix (path_name ip))) \<noteq> PassThrough"
    and r: "read_bytes w ip = Some b"
  shows "locate w ip \<noteq> locate w (wd @ [lit ''output.pdf''])"
proof
  assume e: "locate w ip = locate w (wd @ [lit ''output.pdf''])"
  from r obtain ci where li: "locate w ip = Some ci"
    by (auto simp: read_bytes_at split: option.splits)
  from locate_last [OF li classify_name [OF c]] have "last ci = path_name ip" by simp
  moreover from li e have "locate w (wd @ [lit ''output.pdf'']) = Some ci" by simp
  then have "last ci = lit ''output.pdf''"
    by (auto simp: locate_in_dir [OF ends_pdf_output] split: option.splits if_splits)
  ultimately show False using n classify_output by simp
qed

text \<open>
  The two runs of the engine for an input of the office backend. The first discovery
  selected \<open>q1\<close>, which was copied to \<^verbatim>\<open>output.pdf\<close>; the second run starts from there.
\<close>

lemma rerun_office:
  fixes wd :: path
  defines "out \<equiv> wd @ [lit ''output.pdf'']"
  assumes fs: "find_soffice e w = Some s"
    and fs1: "find_soffice e w1 = Some s"
    and sp: "spawn e (soffice_cmd s ip wd) (files w1) = spawn e (soffice_cmd s ip wd) (files w)"
    and o1: "convert_office_to_pdf e w ip wd t = (Inr q1, va)"
    and cp: "copyfile va q1 out = Inr w1"
    and o2: "convert_office_to_pdf e w1 ip wd t = (r2, vb)"
  shows "r2 = Inr out \<Longrightarrow> copyfile vb out out = Inl SameFileError"
    and "r2 = Inr q \<Longrightarrow> q \<noteq> out \<Longrightarrow> is_file w1 q \<Longrightarrow>
           \<exists>v. copyfile vb q out = Inr v \<and> read_bytes v out = read_bytes w1 q"
    and "q1 \<noteq> out \<and> is_file w1 q1 \<and> read_bytes w1 q1 = read_bytes w1 out \<and>
         read_bytes w1 out \<noteq> None"
    and "q1 = wd @ [py_stem (path_name ip) @ lit ''.pdf''] \<Longrightarrow> r2 = Inr q1"
proof -
  let ?c = "soffice_cmd s ip wd"
  let ?ws = "writes (spawn e ?c (files w))"
  obtain r1 va' where s1: "subprocess_run e w ?c t = (r1, va')"
    by (cases "subprocess_run e w ?c t")
  from o1 s1 have r1: "r1 = Inr ()" and va: "va' = va" and d1: "discover e va ip wd = Inr q1"
    by (auto simp: convert_office_discover [OF fs] split: sum.splits)
  from subprocess_run_world [of e w ?c t] s1 va
  have ba: "\<And>x. bytes_at va x = bytes_at (apply_writes ?ws w) x" and da: "dirs va = dirs w"
    by simp_all
  from r1 s1 have ok1: "fst (subprocess_run e w ?c t) = Inr ()" by simp
  from copyfile_Inr [OF cp] obtain c1 where ns: "\<not> samefile va q1 out"
    and rq: "read_bytes va q1 = Some c1" and wr: "write_bytes va out c1 = Inr w1"
    by blast
  from write_bytes_Inr [OF wr] obtain co where lo: "locate va out = Some co"
    and nd: "\<not> dir_at (dirs va) co" and w1: "w1 = store va co c1"
    by blast
  have d1w: "dirs w1 = dirs va" by (simp add: w1)
  obtain r2' vb' where s2: "subprocess_run e w1 ?c t = (r2', vb')"
    by (cases "subprocess_run e w1 ?c t")
  have "fst (subprocess_run e w1 ?c t) = Inr ()"
    using ok1 sp by (simp add: subprocess_run_ok_iff)
  with s2 have r2': "r2' = Inr ()" by simp
  from o2 s2 r2' have vb: "vb' = vb"
    and o2': "(r2, vb) = (case discover e vb ip wd of Inl err \<Rightarrow> (Inl err, vb)
                          | Inr q \<Rightarrow> (Inr q, vb))"
    by (auto simp: convert_office_discover [OF fs1] split: sum.splits)
  from subprocess_run_world [of e w1 ?c t] s2 vb sp
  have bb: "\<And>x. bytes_at vb x = bytes_at (apply_writes ?ws w1) x" and db: "dirs vb = dirs va"
    by (simp_all add: d1w)
  have b1: "\<And>x. bytes_at w1 x = (if x = co then Some c1 else bytes_at (apply_writes ?ws w) x)"
    by (simp add: w1 bytes_at_store ba)
  from second_writes [OF b1] ba bb
  have same: "\<And>x. x \<noteq> co \<Longrightarrow> bytes_at vb x = bytes_at va x"
    and bo: "bytes_at vb co \<noteq> None"
    by simp_all
  have lb: "\<And>x. locate vb x = locate va x" by (rule locate_cong [OF db])
  have lw: "\<And>x. locate w1 x = locate va x" by (rule locate_cong [OF d1w])
  from lo obtain c where lc: "locate va wd = Some c" and dc: "dir_at (dirs va) c"
    and co: "co = c @ [lit ''output.pdf'']"
    by (auto simp: out_def locate_in_dir [OF ends_pdf_output] split: option.splits if_splits)
  have inner: "\<And>n. ends_pdf n \<Longrightarrow> wd @ [n] \<noteq> out \<Longrightarrow>
      locate va (wd @ [n]) = Some (c @ [n]) \<and> c @ [n] \<noteq> co"
    using lc dc by (simp add: locate_in_dir co out_def)
  have fo: "path_exists vb out"
    using lo bo by (simp add: path_exists_def is_file_at lb)
  show "r2 = Inr out \<Longrightarrow> copyfile vb out out = Inl SameFileError"
    using samefile_self [OF fo] by (simp add: copyfile_def)
  show "\<exists>v. copyfile vb q out = Inr v \<and> read_bytes v out = read_bytes w1 q"
    if r: "r2 = Inr q" and qo: "q \<noteq> out" and fq: "is_file w1 q"
  proof -
    from o2' r have "discover e vb ip wd = Inr q" by (auto split: sum.splits)
    from discover_Inr(2) [OF this] obtain n where q: "q = wd @ [n]" and n: "ends_pdf n"
      by blast
    from inner [OF n] qo q have lq: "locate va q = Some (c @ [n])" and ne: "c @ [n] \<noteq> co"
      by simp_all
    from fq lq obtain b where b: "bytes_at w1 (c @ [n]) = Some b"
      by (auto simp: is_file_at lw)
    with ne have bv: "bytes_at va (c @ [n]) = Some b" by (simp add: w1 bytes_at_store)
    with same [OF ne] have "bytes_at vb (c @ [n]) = Some b" by simp
    with lq have rb: "read_bytes vb q = Some b" by (simp add: read_bytes_at lb)
    from b lq have rw: "read_bytes w1 q = Some b" by (simp add: read_bytes_at lw)
    have ns2: "\<not> samefile vb q out" using lq lo ne by (simp add: samefile_def lb)
    have wb: "write_bytes vb out b = Inr (store vb co b)"
      using lo nd by (simp add: write_bytes_def lb db)
    have "read_bytes (store vb co b) out = Some b"
      using lo by (simp add: read_bytes_at bytes_at_store lb)
    with rb rw ns2 wb show ?thesis by (simp add: copyfile_def)
  qed
  have q1o: "q1 \<noteq> out"
    using ns samefile_self [OF read_bytes_exists [OF rq]] by auto
  from discover_Inr(2) [OF d1] obtain n1 where q1: "q1 = wd @ [n1]" and n1: "ends_pdf n1"
    by blast
  from inner [OF n1] q1o q1 have l1: "locate va q1 = Some (c @ [n1])" and ne1: "c @ [n1] \<noteq> co"
    by simp_all
  from rq l1 have "bytes_at va (c @ [n1]) = Some c1" by (simp add: read_bytes_at)
  with ne1 have "bytes_at w1 (c @ [n1]) = Some c1" by (simp add: w1 bytes_at_store)
  with l1 have "is_file w1 q1" and "read_bytes w1 q1 = Some c1"
    by (simp_all add: is_file_at read_bytes_at lw)
  moreover have "read_bytes w1 out = Some c1"
    using lo by (simp add: read_bytes_at lw) (simp add: w1 bytes_at_store)
  ultimately show "q1 \<noteq> out \<and> is_file w1 q1 \<and> read_bytes w1 q1 = read_bytes w1 out \<and>
         read_bytes w1 out \<noteq> None"
    using q1o by simp
  show "r2 = Inr q1" if e: "q1 = wd @ [py_stem (path_name ip) @ lit ''.pdf'']"
  proof -
    have "\<And>x. bytes_at va x \<noteq> None \<Longrightarrow> bytes_at vb x \<noteq> None"
      using same bo by metis
    from path_exists_mono [OF db this discover_Inr(1) [OF d1]]
    have "path_exists vb (wd @ [py_stem (path_name ip) @ lit ''.pdf''])" by (simp add: e)
    from discover_expected [OF this, of e] o2' e show ?thesis by simp
  qed
qed

text \<open>
  Claim C8, as amended. Let a first call of the dispatcher succeed, and let the
  environment repeat itself on the second call (the locator finds the same engine, the
  engine does what it did on the first call, and the PDF libraries give for the same
  bytes the PDF they gave at the time of the first call). For an input of the pass-through,
  image or text strategy, a second call on the same input path and working directory
  succeeds and leaves \<^verbatim>\<open>output.pdf\<close> with the content the first call gave it. For an
  input of the office backend the second output discovery decides: when it selects
  the file the first discovery selected, the second call succeeds with the same
  content, and it does select that file when the first discovery found the file of the
  expected name; when it selects \<^verbatim>\<open>output.pdf\<close> itself, the second call fails with
  \<open>SameFileError\<close>; when it selects another file, the second call succeeds and
  \<^verbatim>\<open>output.pdf\<close> takes the content of that file. Which file the fallback selects is
  decided by the modification times, which may tie, and by the order in which the
  directory is enumerated.
\<close>

theorem second_run_same_output:
  assumes run1: "convert_to_pdf e w ip wd = (Inr p, w1)"
    and fs: "find_soffice e w1 = find_soffice e w"
    and sp: "\<forall>s. spawn e (soffice_cmd s ip wd) (files w1) = spawn e (soffice_cmd s ip wd) (files w)"
    and lib: "\<forall>b. img2pdf_convert e (clock w1) b = img2pdf_convert e (clock w) b \<and>
                 render_text e (clock w1) b = render_text e (clock w) b"
  shows "(classify (lower (py_suffix (path_name ip))) \<noteq> OfficeSuite \<or>
          fst (convert_office_to_pdf e w1 ip wd 90) = fst (convert_office_to_pdf e w ip wd 90) \<longrightarrow>
            fst (convert_to_pdf e w1 ip wd) = Inr p \<and>
            read_bytes (snd (convert_to_pdf e w1 ip wd)) p = read_bytes w1 p \<and>
            read_bytes w1 p \<noteq> None) \<and>
         (classify (lower (py_suffix (path_name ip))) = OfficeSuite \<and>
          fst (convert_office_to_pdf e w ip wd 90) =
            Inr (wd @ [py_stem (path_name ip) @ lit ''.pdf'']) \<longrightarrow>
            fst (convert_office_to_pdf e w1 ip wd 90) = fst (convert_office_to_pdf e w ip wd 90)) \<and>
         (classify (lower (py_suffix (path_name ip))) = OfficeSuite \<and>
          fst (convert_office_to_pdf e w1 ip wd 90) = Inr p \<longrightarrow>
            fst (convert_to_pdf e w1 ip wd) = Inl SameFileError) \<and>
         (\<forall>q. classify (lower (py_suffix (path_name ip))) = OfficeSuite \<and>
              fst (convert_office_to_pdf e w1 ip wd 90) = Inr q \<and> q \<noteq> p \<and> is_file w1 q \<longrightarrow>
            fst (convert_to_pdf e w1 ip wd) = Inr p \<and>
            read_bytes (snd (convert_to_pdf e w1 ip wd)) p = read_bytes w1 q)"
proof (cases "classify (lower (py_suffix (path_name ip)))")
  case PassThrough
  let ?out = "wd @ [lit ''output.pdf'']"
  from run1 PassThrough have p: "p = ?out" and cp: "copyfile w ip ?out = Inr w1"
    by (auto simp: convert_to_pdf_classify split: sum.splits)
  from copyfile_Inr [OF cp] obtain b where ns: "\<not> samefile w ip ?out"
    and r: "read_bytes w ip = Some b" and wr: "write_bytes w ?out b = Inr w1"
    by blast
  from rerun_plain [OF r wr samefile_locate [OF ns read_bytes_exists [OF r]]]
  obtain v where "copyfile w1 ip ?out = Inr v" and "read_bytes v ?out = read_bytes w1 ?out"
    and "read_bytes w1 ?out \<noteq> None"
    by (auto simp: copyfile_def)
  with PassThrough p show ?thesis by (simp add: convert_to_pdf_classify)
next
  case Image_strategy
  let ?out = "wd @ [lit ''output.pdf'']"
  from run1 Image_strategy have p: "p = ?out" and cv: "convert_image_to_pdf e w ip ?out = Inr w1"
    by (auto simp: convert_to_pdf_classify split: sum.splits)
  from cv obtain b pb where r: "read_bytes w ip = Some b"
    and i: "img2pdf_convert e (clock w) b = Inr pb"
    and wr: "write_bytes w ?out pb = Inr w1"
    by (auto simp: convert_image_to_pdf_def split: option.splits sum.splits)
  have ne: "locate w ip \<noteq> locate w ?out"
    by (rule not_output_path [OF _ _ r]) (simp_all add: Image_strategy)
  from rerun_plain [OF r wr ne] i lib
  obtain v where "convert_image_to_pdf e w1 ip ?out = Inr v"
    and "read_bytes v ?out = read_bytes w1 ?out" and "read_bytes w1 ?out \<noteq> None"
    by (auto simp: convert_image_to_pdf_def)
  with Image_strategy p show ?thesis by (simp add: convert_to_pdf_classify)
next
  case Text_strategy
  let ?out = "wd @ [lit ''output.pdf'']"
  from run1 Text_strategy have p: "p = ?out" and cv: "convert_text_to_pdf e w ip ?out = Inr w1"
    by (auto simp: convert_to_pdf_classify split: sum.splits)
  from cv obtain b where r: "read_bytes w ip = Some b"
    and wr: "write_bytes w ?out (render_text e (clock w) b) = Inr w1"
    by (auto simp: convert_text_to_pdf_def split: option.splits)
  have ne: "locate w ip \<noteq> locate w ?out"
    by (rule not_output_path [OF _ _ r]) (simp_all add: Text_strategy)
  from rerun_plain [OF r wr ne] lib
  obtain v where "convert_text_to_pdf e w1 ip ?out = Inr v"
    and "read_bytes v ?out = read_bytes w1 ?out" and "read_bytes w1 ?out \<noteq> None"
    by (auto simp: convert_text_to_pdf_def)
  with Text_strategy p show ?thesis by (simp add: convert_to_pdf_classify)
next
  case OfficeSuite
  let ?out = "wd @ [lit ''output.pdf'']"
  from run1 OfficeSuite obtain q1 va where p: "p = ?out"
    and o1: "convert_office_to_pdf e w ip wd 90 = (Inr q1, va)"
    and cp: "copyfile va q1 ?out = Inr w1"
    by (auto simp: convert_to_pdf_classify split: sum.splits prod.splits)
  from o1 obtain s where s: "find_soffice e w = Some s"
    by (cases "find_soffice e w") (auto simp: convert_office_to_pdf_def)
  with fs have s1: "find_soffice e w1 = Some s" by simp
  from sp have sp': "spawn e (soffice_cmd s ip wd) (files w1) = spawn e (soffice_cmd s ip wd) (files w)"
    by blast
  obtain r2 vb where o2: "convert_office_to_pdf e w1 ip wd 90 = (r2, vb)"
    by (cases "convert_office_to_pdf e w1 ip wd 90")
  note facts = rerun_office [OF s s1 sp' o1 cp o2]
  have run2: "convert_to_pdf e w1 ip wd =
      (case r2 of
         Inl err \<Rightarrow> (Inl err, vb)
       | Inr q \<Rightarrow> (case copyfile vb q ?out of
                     Inl err \<Rightarrow> (Inl err, vb)
                   | Inr v \<Rightarrow> (Inr ?out, v)))"
    using OfficeSuite o2 by (simp add: convert_to_pdf_classify split: sum.splits)
  have other: "fst (convert_to_pdf e w1 ip wd) = Inr p \<and>
      read_bytes (snd (convert_to_pdf e w1 ip wd)) p = read_bytes w1 q"
    if "r2 = Inr q" "q \<noteq> ?out" "is_file w1 q" for q
  proof -
    from facts(2) [OF that] obtain v where "copyfile vb q ?out = Inr v"
      and "read_bytes v ?out = read_bytes w1 q"
      by blast
    with that(1) show ?thesis by (simp add: run2 p)
  qed
  have a: "fst (convert_to_pdf e w1 ip wd) = Inr p \<and>
      read_bytes (snd (convert_to_pdf e w1 ip wd)) p = read_bytes w1 p \<and>
      read_bytes w1 p \<noteq> None"
    if "r2 = Inr q1"
    using other [OF that] facts(3) by (simp add: p)
  have b: "fst (convert_to_pdf e w1 ip wd) = Inl SameFileError" if "r2 = Inr ?out"
    using facts(1) [OF that] that by (simp add: run2)
  have c: "r2 = Inr q1" if "q1 = wd @ [py_stem (path_name ip) @ lit ''.pdf'']"
    using facts(4) [OF that] .
  show ?thesis
    using OfficeSuite a b c other by (simp add: o1 o2 p)
qed

lemmas eval_defs = convert_to_pdf_def convert_office_to_pdf_def find_soffice_def subprocess_run_def
  store_def glob_pdf_def sorted_reverse_def mtime_of_def copyfile_def samefile_def
  write_bytes_def read_bytes_def fs_defs ends_pdf_def suffix_def
  path_name_def py_stem_def py_suffix_def rfind_def lower_def truthy_def soffice_cmd_def
  IMAGE_EXTS_def TEXT_EXTS_def OFFICE_EXTS_def str_of_path_def msg_no_pdf_def
  stale_world_def office_world_def docx_path_def job_dir_def naming_env_def example_env_def
  idle_run_def after_idle_def after_bericht_def same_tick_world_def output_first_env_def
  after_same_tick_def lit_def Let_def

lemma idle_first:
  "convert_to_pdf example_env stale_world docx_path job_dir =
     (Inr (job_dir @ [lit ''output.pdf'']), after_idle)"
  by (simp add: eval_defs)

lemma idle_discovery:
  "fst (convert_office_to_pdf example_env after_idle docx_path job_dir 90) =
     Inr (job_dir @ [lit ''output.pdf''])"
  by (simp add: eval_defs)

lemma idle_second:
  "fst (convert_to_pdf example_env after_idle docx_path job_dir) = Inl SameFileError"
  by (simp add: eval_defs)

lemma same_tick_first:
  "convert_to_pdf output_first_env same_tick_world docx_path job_dir =
     (Inr (job_dir @ [lit ''output.pdf'']), after_same_tick)"
  by (simp add: eval_defs)

lemma same_tick_second:
  "fst (convert_to_pdf output_first_env after_same_tick docx_path job_dir) = Inl SameFileError"
  by (simp add: eval_defs)

text \<open>
  The dispatcher is not idempotent on every working directory. With an engine that
  ends with exit code 0 and writes nothing, and an older PDF in the directory, the
  first call succeeds through the fallback, and the second call selects the
  \<^verbatim>\<open>output.pdf\<close> of the first and fails copying it onto itself. The same happens in a
  fresh directory with an engine that writes its PDF under another name than the
  expected one, when the clock of the file system does not advance between the writes
  and the directory lists \<^verbatim>\<open>output.pdf\<close> first: the times tie and the stable sort
  keeps \<^verbatim>\<open>output.pdf\<close> at the head.
\<close>

theorem second_run_same_file_error:
  "fst (convert_to_pdf example_env stale_world docx_path job_dir) =
     Inr (job_dir @ [lit ''output.pdf'']) \<and>
   fst (convert_to_pdf example_env
          (snd (convert_to_pdf example_env stale_world docx_path job_dir)) docx_path job_dir) =
     Inl SameFileError \<and>
   files same_tick_world = [(docx_path, \<lparr>content = lit ''doc'', mtime = 1\<rparr>)] \<and>
   fst (convert_to_pdf output_first_env same_tick_world docx_path job_dir) =
     Inr (job_dir @ [lit ''output.pdf'']) \<and>
   fst (convert_to_pdf output_first_env
          (snd (convert_to_pdf output_first_env same_tick_world docx_path job_dir))
          docx_path job_dir) =
     Inl SameFileError"
proof -
  have "files same_tick_world = [(docx_path, \<lparr>content = lit ''doc'', mtime = 1\<rparr>)]"
    by (simp add: same_tick_world_def office_world_def)
  then show ?thesis
    by (simp add: idle_first idle_second same_tick_first same_tick_second)
qed

lemma bericht_first:
  "convert_to_pdf (naming_env (lit ''Bericht.pdf'')) stale_world docx_path job_dir =
     (Inr (job_dir @ [lit ''output.pdf'']), after_bericht)"
  by (simp add: eval_defs)

lemma bericht_discovery_first:
  "fst (convert_office_to_pdf (naming_env (lit ''Bericht.pdf'')) stale_world docx_path job_dir 90) =
     Inr (job_dir @ [lit ''Bericht.pdf''])"
  by (simp add: eval_defs)

lemma bericht_discovery:
  "fst (convert_office_to_pdf (naming_env (lit ''Bericht.pdf'')) after_bericht docx_path job_dir 90) =
     Inr (job_dir @ [lit ''Bericht.pdf''])"
  by (simp add: eval_defs)

theorem second_run_same_output_witness:
  "convert_to_pdf (naming_env (lit ''Bericht.pdf'')) stale_world docx_path job_dir =
     (Inr (job_dir @ [lit ''output.pdf'']), after_bericht) \<and>
   find_soffice (naming_env (lit ''Bericht.pdf'')) after_bericht =
     find_soffice (naming_env (lit ''Bericht.pdf'')) stale_world \<and>
   classify (lower (py_suffix (path_name docx_path))) = OfficeSuite \<and>
   fst (convert_office_to_pdf (naming_env (lit ''Bericht.pdf'')) after_bericht docx_path job_dir 90) =
     fst (convert_office_to_pdf (naming_env (lit ''Bericht.pdf'')) stale_world docx_path job_dir 90) \<and>
   fst (convert_to_pdf (naming_env (lit ''Bericht.pdf'')) after_bericht docx_path job_dir) =
     Inr (job_dir @ [lit ''output.pdf'']) \<and>
   read_bytes (snd (convert_to_pdf (naming_env (lit ''Bericht.pdf'')) after_bericht docx_path job_dir))
     (job_dir @ [lit ''output.pdf'']) = Some (lit ''%PDF-1'') \<and>
   convert_to_pdf example_env stale_world docx_path job_dir =
     (Inr (job_dir @ [lit ''output.pdf'']), after_idle) \<and>
   fst (convert_office_to_pdf example_env after_idle docx_path job_dir 90) =
     Inr (job_dir @ [lit ''output.pdf'']) \<and>
   fst (convert_to_pdf example_env after_idle docx_path job_dir) = Inl SameFileError"
proof -
  let ?e = "naming_env (lit ''Bericht.pdf'')"
  have fs: "find_soffice ?e after_bericht = find_soffice ?e stale_world"
    by (simp add: find_naming)
  have sp: "\<forall>s. spawn ?e (soffice_cmd s docx_path job_dir) (files after_bericht) =
      spawn ?e (soffice_cmd s docx_path job_dir) (files stale_world)"
    by (simp add: spawn_naming)
  have eq: "fst (convert_office_to_pdf ?e after_bericht docx_path job_dir 90) =
      fst (convert_office_to_pdf ?e stale_world docx_path job_dir 90)"
    by (simp add: bericht_discovery bericht_discovery_first)
  have rb: "read_bytes after_bericht (job_dir @ [lit ''output.pdf'']) = Some (lit ''%PDF-1'')"
    by (simp add: eval_defs)
  have lib: "\<forall>b. img2pdf_convert ?e (clock after_bericht) b =
                   img2pdf_convert ?e (clock stale_world) b \<and>
                 render_text ?e (clock after_bericht) b = render_text ?e (clock stale_world) b"
    by (simp add: naming_env_def example_env_def)
  from second_run_same_output [OF bericht_first fs sp lib] eq rb
  have a: "fst (convert_to_pdf ?e after_bericht docx_path job_dir) =
        Inr (job_dir @ [lit ''output.pdf'']) \<and>
      read_bytes (snd (convert_to_pdf ?e after_bericht docx_path job_dir))
        (job_dir @ [lit ''output.pdf'']) = Some (lit ''%PDF-1'')"
    by simp
  have fs': "find_soffice example_env after_idle = find_soffice example_env stale_world"
    by (simp add: find_example)
  have sp': "\<forall>s. spawn example_env (soffice_cmd s docx_path job_dir) (files after_idle) =
      spawn example_env (soffice_cmd s docx_path job_dir) (files stale_world)"
    by (simp add: spawn_example)
  have lib': "\<forall>b. img2pdf_convert example_env (clock after_idle) b =
                    img2pdf_convert example_env (clock stale_world) b \<and>
                  render_text example_env (clock after_idle) b =
                    render_text example_env (clock stale_world) b"
    by (simp add: example_env_def)
  from second_run_same_output [OF idle_first fs' sp' lib'] classify_docx idle_discovery
  have b: "fst (convert_to_pdf example_env after_idle docx_path job_dir) = Inl SameFileError"
    by simp
  from a b fs eq classify_docx bericht_first idle_first idle_discovery
  show ?thesis by simp
qed

section \<open>Cleanup at the name step\<close>

text \<open>
  The dispatcher never touches the directory table, so when the name step goes on to
  convert, its \<^verbatim>\<open>finally\<close> block finds the working directory and removes it with all
  that is inside, whatever the conversion and the delivery did. When a stored path no
  longer exists, the step reports the lost context and returns before any cleanup.
\<close>

lemma dirs_write_bytes: "write_bytes w p c = Inr w' \<Longrightarrow> dirs w' = dirs w"
  by (simp add: write_bytes_fields)

lemma dirs_copyfile: "copyfile w s d = Inr w' \<Longrightarrow> dirs w' = dirs w"
  by (auto simp: copyfile_def split: if_splits option.splits dest: dirs_write_bytes)

lemma dirs_convert_office: "dirs (snd (convert_office_to_pdf e w ip wd t)) = dirs w"
proof (cases "find_soffice e w")
  case None
  then show ?thesis by (simp add: convert_office_to_pdf_def)
next
  case (Some s)
  obtain r v where sr: "subprocess_run e w (soffice_cmd s ip wd) t = (r, v)"
    by (cases "subprocess_run e w (soffice_cmd s ip wd) t")
  from subprocess_run_world(2) [of e w "soffice_cmd s ip wd" t] sr have "dirs v = dirs w" by simp
  with sr show ?thesis
    by (simp add: convert_office_discover [OF Some] split: sum.splits)
qed

lemma dirs_convert_to_pdf: "dirs (snd (convert_to_pdf e w ip wd)) = dirs w"
proof (cases "classify (lower (py_suffix (path_name ip)))")
  case PassThrough
  then show ?thesis
    by (auto simp: convert_to_pdf_classify split: sum.splits dest: dirs_copyfile)
next
  case Image_strategy
  then show ?thesis
    by (auto simp: convert_to_pdf_classify convert_image_to_pdf_def
             split: sum.splits option.splits dest: dirs_write_bytes)
next
  case Text_strategy
  then show ?thesis
    by (auto simp: convert_to_pdf_classify convert_text_to_pdf_def
             split: sum.splits option.splits dest: dirs_write_bytes)
next
  case OfficeSuite
  obtain r v where co: "convert_office_to_pdf e w ip wd 90 = (r, v)"
    by (cases "convert_office_to_pdf e w ip wd 90")
  with dirs_convert_office [of e w ip wd 90] have "dirs v = dirs w" by simp
  with OfficeSuite co show ?thesis
    by (auto simp: convert_to_pdf_classify split: sum.splits dest: dirs_copyfile)
qed

lemma locate_mono:
  assumes "set (dirs v') \<subseteq> set (dirs v)" and "locate v' p = Some q"
  shows "locate v p = Some q"
  using assms(2) walk_mono [OF assms(1)] by (auto simp: locate_def split: if_splits)

text \<open>
  What resolves to a place inside the removed directory (the directory itself is one)
  does not exist afterwards. The current directory and the root are not removed.
\<close>

lemma rmtree_removes:
  assumes lc: "locate v d = Some c" and dc: "dir_at (dirs v) c"
    and ne: "c \<noteq> []" "c \<noteq> [lit ''/'']"
    and lp: "locate v p = Some q" and ins: "inside c q"
  shows "\<not> path_exists (rmtree v d) p"
proof
  let ?v = "v\<lparr>files := filter (\<lambda>(p, f). \<not> inside c p) (files v),
               dirs := filter (\<lambda>p. \<not> inside c p) (dirs v)\<rparr>"
  assume ex: "path_exists (rmtree v d) p"
  from lc dc have r: "rmtree v d = ?v" by (simp add: rmtree_def)
  from ex r obtain q' where lq: "locate ?v p = Some q'"
    and e: "dir_at (dirs ?v) q' \<or> map_of (files ?v) q' \<noteq> None"
    by (auto simp: path_exists_def is_dir_def is_file_def split: option.splits)
  have "set (dirs ?v) \<subseteq> set (dirs v)" by auto
  from locate_mono [OF this lq] lp have q: "q' = q" by simp
  from ins ne have "q \<noteq> []" and "q \<noteq> [lit ''/'']"
    by (auto simp: inside_def prefix_Cons)
  with ins have "\<not> dir_at (dirs ?v) q" by (simp add: dir_at_def)
  moreover have "map_of (files ?v) q = None"
    using ins by (auto simp: map_of_eq_None_iff)
  ultimately show False using e q by simp
qed

lemma inside_self: "inside d d"
  by (simp add: inside_def)

lemma dirs_deliver: "deliver e v p n = Inr v' \<Longrightarrow> dirs v' = dirs v"
  by (auto simp: deliver_def reply_text_def split: option.splits)

lemma name_step_context_lost:
  assumes "\<not> path_exists w (get_path w (lit ''work_dir'')) \<or>
           \<not> path_exists w (get_path w (lit ''input_path''))"
  shows "receive_name_and_convert e w msg = (END, clear_user_data (reply_text w LostFileContext))"
  using assms by (auto simp: receive_name_and_convert_def Let_def)

lemma name_step_removes_work_dir:
  assumes wd: "locate w (get_path w (lit ''work_dir'')) = Some c" "dir_at (dirs w) c"
      "c \<noteq> []" "c \<noteq> [lit ''/'']"
    and ip: "path_exists w (get_path w (lit ''input_path''))"
    and p: "locate w p = Some q" "inside c q"
  shows "fst (receive_name_and_convert e w msg) = END"
    and "user_data (snd (receive_name_and_convert e w msg)) = []"
    and "\<not> path_exists (snd (receive_name_and_convert e w msg)) p"
proof -
  let ?wd = "get_path w (lit ''work_dir'')" and ?ip = "get_path w (lit ''input_path'')"
  from wd(1,2) have ex: "path_exists w ?wd" by (simp add: path_exists_def is_dir_def)
  obtain v where v: "receive_name_and_convert e w msg = (END, rmtree (clear_user_data v) ?wd)"
    and dv: "dirs v = dirs w"
  proof -
    obtain r w2 where c: "convert_to_pdf e (reply_text w Converting) ?ip ?wd = (r, w2)"
      by (cases "convert_to_pdf e (reply_text w Converting) ?ip ?wd")
    with dirs_convert_to_pdf [of e "reply_text w Converting" ?ip ?wd]
    have d2: "dirs w2 = dirs w" by (simp add: reply_text_def)
    let ?w3 = "case (r, w2) of
                 (Inr pdf_path, w2) \<Rightarrow>
                   (case deliver e w2 pdf_path
                      (sanitize_filename (if truthy (msg_text msg) then the (msg_text msg) else []) 64 @
                       lit ''.pdf'') of
                      Inr w' \<Rightarrow> w'
                    | Inl TimeoutExpired \<Rightarrow> reply_text w2 ConversionTimedOut
                    | Inl (CalledProcessError c) \<Rightarrow>
                        reply_text w2 (LibreOfficeFailed (CalledProcessError c))
                    | Inl err \<Rightarrow> reply_text w2 (ConversionFailed err))
               | (Inl TimeoutExpired, w2) \<Rightarrow> reply_text w2 ConversionTimedOut
               | (Inl (CalledProcessError c), w2) \<Rightarrow>
                   reply_text w2 (LibreOfficeFailed (CalledProcessError c))
               | (Inl err, w2) \<Rightarrow> reply_text w2 (ConversionFailed err)"
    have "dirs ?w3 = dirs w"
      using d2 by (auto simp: reply_text_def split: sum.splits error.splits dest: dirs_deliver)
    moreover have "receive_name_and_convert e w msg = (END, rmtree (clear_user_data ?w3) ?wd)"
      using ex ip c by (simp add: receive_name_and_convert_def Let_def)
    ultimately show ?thesis using that by blast
  qed
  have dc: "dirs (clear_user_data v) = dirs w" using dv by (simp add: clear_user_data_def)
  have "locate (clear_user_data v) ?wd = Some c" and "dir_at (dirs (clear_user_data v)) c"
    and "locate (clear_user_data v) p = Some q"
    using wd(1,2) p(1) locate_cong [OF dc] dc by simp_all
  from rmtree_removes [OF this(1,2) wd(3,4) this(3) p(2)] v
  show "\<not> path_exists (snd (receive_name_and_convert e w msg)) p" by simp
  show "fst (receive_name_and_convert e w msg) = END" using v by simp
  show "user_data (snd (receive_name_and_convert e w msg)) = []"
    using v by (simp add: rmtree_def clear_user_data_def split: option.splits)
qed

end
